theory Spec2Isabelle
  imports Main "HOL-Library.Word"
begin

section \<open>Common data\<close>

text \<open>
  Buffers, ArrayBuffers and Uint8Arrays are lists of octets. A JavaScript \<open>Date\<close> is its
  time value: milliseconds since the epoch, as \<open>Date.getTime()\<close> returns it. A
  \<open>CryptoKey\<close> is identified by its DER serialization. JavaScript strings are lists of
  characters, \<open>.length\<close> being the length of the list.
\<close>

type_synonym octets = "8 word list"
type_synonym date = int
type_synonym CryptoKey = octets

text \<open>
  The error classes of the library. Each carries its message; a wrapped cause is rendered
  as \<open>context: cause\<close>. \<open>NativeError\<close> is a plain JavaScript \<open>Error\<close> thrown by
  a dependency and not wrapped.
\<close>

datatype error =
    RAMFSyntaxError string
  | RAMFValidationError string
  | CMSError string
  | CertificateError string
  | KeyStoreError string
  | UnknownKeyError string
  | NativeError string

text \<open>
  The JavaScript numbers that occur as a TTL: integers, and the two infinities that the
  conversion of a big integer can produce.
\<close>

datatype number = Finite int | PosInfinity | NegInfinity

fun number_lt :: "number \<Rightarrow> number \<Rightarrow> bool" where
  "number_lt (Finite a) (Finite b) = (a < b)"
| "number_lt (Finite a) PosInfinity = True"
| "number_lt (Finite a) NegInfinity = False"
| "number_lt PosInfinity b = False"
| "number_lt NegInfinity NegInfinity = False"
| "number_lt NegInfinity b = True"

subsection \<open>Rendering numbers in messages\<close>

definition digit_char :: "nat \<Rightarrow> char" where
  "digit_char d = ''0123456789abcdef'' ! d"

fun nat_to_string :: "nat \<Rightarrow> nat \<Rightarrow> string" where
  "nat_to_string b n =
     (if b < 2 \<or> n < b then [digit_char n]
      else nat_to_string b (n div b) @ [digit_char (n mod b)])"

declare nat_to_string.simps [simp del]

definition int_to_string :: "int \<Rightarrow> string" where
  "int_to_string i =
     (if i < 0 then CHR ''-'' # nat_to_string 10 (nat (- i)) else nat_to_string 10 (nat i))"

text \<open>\<open>Buffer.toString('hex')\<close>: two lowercase hexadecimal digits per octet.\<close>

definition octet_to_hex :: "8 word \<Rightarrow> string" where
  "octet_to_hex b = [digit_char (unat b div 16), digit_char (unat b mod 16)]"

definition toString_hex :: "octets \<Rightarrow> string" where
  "toString_hex bs = concat (map octet_to_hex bs)"

subsection \<open>ASN.1 INTEGER contents and big integers\<close>

text \<open>
  \<open>asn1js.Integer.toBigInt()\<close> reads the content octets of an INTEGER as a big-endian
  two's complement number.
\<close>

fun be_uint :: "int \<Rightarrow> octets \<Rightarrow> int" where
  "be_uint acc [] = acc"
| "be_uint acc (b # bs) = be_uint (acc * 256 + uint b) bs"

definition toBigInt :: "octets \<Rightarrow> int" where
  "toBigInt bs =
     (case bs of
        [] \<Rightarrow> 0
      | b # _ \<Rightarrow> if 127 < unat b then be_uint 0 bs - 2 ^ (8 * length bs) else be_uint 0 bs)"

text \<open>
  \<open>Number(bigint)\<close>: the nearest IEEE 754 double, ties to even. A magnitude of at most
  53 bits is exact; a longer one keeps its 53 leading bits, rounded; a result of
  \<open>2 ^ 1024\<close> or more is an infinity.
\<close>

fun bit_length :: "nat \<Rightarrow> nat" where
  "bit_length n = (if n = 0 then 0 else Suc (bit_length (n div 2)))"

declare bit_length.simps [simp del]

definition round_to_double :: "nat \<Rightarrow> nat option" where
  "round_to_double n =
     (let k = bit_length n in
      if k \<le> 53 then Some n
      else
        let e = k - 53;
            q = n div 2 ^ e;
            r = n mod 2 ^ e;
            half = 2 ^ (e - 1);
            q' = (if half < r \<or> (r = half \<and> odd q) then q + 1 else q);
            v = q' * 2 ^ e
        in if 2 ^ 1024 \<le> v then None else Some v)"

definition Number_of_bigint :: "int \<Rightarrow> number" where
  "Number_of_bigint i =
     (if 0 \<le> i
      then (case round_to_double (nat i) of Some v \<Rightarrow> Finite (int v) | None \<Rightarrow> PosInfinity)
      else (case round_to_double (nat (- i)) of
              Some v \<Rightarrow> Finite (- int v) | None \<Rightarrow> NegInfinity))"

subsection \<open>Numbers in template literals\<close>

text \<open>
  \<open>Number::toString\<close> of ECMAScript, for the numbers above. The digits are those of
  the integers \<open>n\<close>, \<open>k\<close>, \<open>s\<close> with \<open>10 ^ (k - 1) \<le> s < 10 ^ k\<close>, the double
  nearest to \<open>s * 10 ^ (n - k)\<close> being the number, and \<open>k\<close> as small as possible; where
  several \<open>s\<close> qualify, the one whose value is closest to the number, the even one on a
  tie. With \<open>d\<close> the number of decimal digits of the number, \<open>n\<close> is \<open>d\<close> or
  \<open>d + 1\<close> and \<open>s\<close> is the quotient by \<open>10 ^ (n - k)\<close> or its successor. Up to
  \<open>n = 21\<close> the result is the digits of \<open>s\<close> followed by \<open>n - k\<close> zeros; above, it
  is in exponent notation. An integer that is not a double has no such digits and is
  printed as it is.
\<close>

definition shortest_candidates :: "nat \<Rightarrow> nat \<Rightarrow> nat \<Rightarrow> (nat \<times> nat) list" where
  "shortest_candidates x k n =
     (let p = 10 ^ (n - k); lo = x div p in
      map (\<lambda>s. (s, n))
        (filter (\<lambda>s. 10 ^ (k - 1) \<le> s \<and> s < 10 ^ k \<and> round_to_double (s * p) = Some x)
           [lo, lo + 1]))"

definition candidate_distance :: "nat \<Rightarrow> nat \<Rightarrow> nat \<times> nat \<Rightarrow> nat" where
  "candidate_distance x k c =
     (let v = fst c * 10 ^ (snd c - k) in if v \<le> x then x - v else v - x)"

fun closest_candidate :: "nat \<Rightarrow> nat \<Rightarrow> (nat \<times> nat) list \<Rightarrow> (nat \<times> nat) option" where
  "closest_candidate x k [] = None"
| "closest_candidate x k (c # cs) =
     (case closest_candidate x k cs of
        None \<Rightarrow> Some c
      | Some c' \<Rightarrow>
          if candidate_distance x k c < candidate_distance x k c'
             \<or> (candidate_distance x k c = candidate_distance x k c' \<and> even (fst c))
          then Some c else Some c')"

definition shortest_digits :: "nat \<Rightarrow> (nat \<times> nat \<times> nat) option" where
  "shortest_digits x =
     (let d = length (nat_to_string 10 x) in
      case List.find (\<lambda>k. shortest_candidates x k d @ shortest_candidates x k (d + 1) \<noteq> [])
             [1 ..< Suc d] of
        None \<Rightarrow> None
      | Some k \<Rightarrow>
          (case closest_candidate x k
                  (shortest_candidates x k d @ shortest_candidates x k (d + 1)) of
             None \<Rightarrow> None
           | Some (s, n) \<Rightarrow> Some (s, k, n)))"

definition double_to_string :: "nat \<Rightarrow> string" where
  "double_to_string x =
     (case shortest_digits x of
        None \<Rightarrow> nat_to_string 10 x
      | Some (s, k, n) \<Rightarrow>
          let digits = nat_to_string 10 s in
          if n \<le> 21 then digits @ replicate (n - k) (CHR ''0'')
          else (if k = 1 then digits else hd digits # CHR ''.'' # tl digits)
               @ ''e+'' @ nat_to_string 10 (n - 1))"

fun number_to_string :: "number \<Rightarrow> string" where
  "number_to_string (Finite i) =
     (if i < 0 then CHR ''-'' # double_to_string (nat (- i)) else double_to_string (nat i))"
| "number_to_string PosInfinity = ''Infinity''"
| "number_to_string NegInfinity = ''-Infinity''"

declare number_to_string.simps [simp del]

section \<open>X.509 certificates\<close>

text \<open>
  The ASN.1 values that occur in distinguished names. Their BER encoding and decoding
  belong to asn1js and are parameters of the model (see \<open>externals\<close> below).
\<close>

datatype asn1value =
    BmpString string
  | Utf8String string
  | PrintableString string
  | OtherValue octets

record AttributeTypeAndValue =
  attr_type :: string
  attr_value :: asn1value

record Extension =
  extnID :: string
  critical :: bool
  extnValue :: octets

record pkijsCertificate =
  version :: int
  serialNumber :: octets
  notBefore :: date
  notAfter :: date
  subject :: "AttributeTypeAndValue list"
  issuer :: "AttributeTypeAndValue list"
  extensions :: "Extension list option"
  subjectPublicKeyInfo :: "CryptoKey option"
  signatureValue :: "octets option"

record Certificate =
  pkijsCertificate :: pkijsCertificate
  privateAddressCache :: "string option"

definition new_Certificate :: "pkijsCertificate \<Rightarrow> Certificate" where
  "new_Certificate c = \<lparr>pkijsCertificate = c, privateAddressCache = None\<rparr>"

definition startDate :: "Certificate \<Rightarrow> date" where
  "startDate c = notBefore (pkijsCertificate c)"

definition expiryDate :: "Certificate \<Rightarrow> date" where
  "expiryDate c = notAfter (pkijsCertificate c)"

record BasicConstraints =
  cA :: bool
  bc_pathLenConstraint :: "int option"

section \<open>RAMF messages\<close>

record RAMFMessage =
  recipientAddress :: string
  id' :: string
  creationDate :: date
  ttl :: number
  payloadSerialized :: octets
  senderCertificate :: Certificate
  senderCaCertificateChain :: "Certificate list"

text \<open>
  Modelled from the spec: the signature options of CMS SignedData, whose declaration is
  not among the sources: a hash name and whether the plaintext is encapsulated, both
  optional.
\<close>

record SignatureOptions =
  hashAlgorithmName :: "string option"
  encapsulatePlaintext :: "bool option"

record SignatureVerification =
  plaintext :: octets
  signerCertificate :: Certificate
  attachedCertificates :: "Certificate list"

text \<open>The five primitive blocks of a verified RAMF field set, each as its content octets.\<close>

record RAMFMessageBlocks =
  block_recipientAddress :: octets
  block_id :: octets
  block_date :: octets
  block_ttl :: octets
  block_payload :: octets

record MessageFormatSignature =
  concreteMessageType :: nat
  concreteMessageVersion :: nat

record MessageFieldSet =
  field_recipientAddress :: string
  field_id :: string
  field_date :: date
  field_ttl :: number
  field_payload :: octets

text \<open>
  The functions the sources call in their dependencies (asn1js, PKI.js, WebCrypto, the
  WHATWG URL parser) and in modules of the library that only wrap them. They are
  parameters of every function that uses them. A function that can throw returns the
  error, or the message of its native error, on the left.
\<close>

record externals =
  new_URL :: "string \<Rightarrow> bool"
  fieldSet_toBER :: "string \<Rightarrow> string \<Rightarrow> date \<Rightarrow> number \<Rightarrow> octets \<Rightarrow> octets"
  cms_sign :: "octets \<Rightarrow> CryptoKey \<Rightarrow> Certificate \<Rightarrow> Certificate list \<Rightarrow>
               SignatureOptions option \<Rightarrow> error + octets"
  cms_verifySignature :: "octets \<Rightarrow> string + SignatureVerification"
  verifySchema :: "octets \<Rightarrow> RAMFMessageBlocks option"
  asn1DateTimeToDate :: "octets \<Rightarrow> string + date"
  textDecoder_decode :: "octets \<Rightarrow> string"
  value_toBER :: "asn1value \<Rightarrow> octets"
  derDeserialize :: "octets \<Rightarrow> string + asn1value"
  parse_BasicConstraints :: "octets \<Rightarrow> string + BasicConstraints"
  BasicConstraints_toBER :: "BasicConstraints \<Rightarrow> octets"
  AuthorityKeyIdentifier_toBER :: "octets \<Rightarrow> octets"
  OctetString_toBER :: "octets \<Rightarrow> octets"
  getPublicKeyDigest :: "CryptoKey \<Rightarrow> octets"
  certificate_getPublicKey :: "pkijsCertificate \<Rightarrow> string + CryptoKey"
  certificate_sign :: "pkijsCertificate \<Rightarrow> CryptoKey \<Rightarrow> string + octets"
  importKey :: "CryptoKey \<Rightarrow> string + CryptoKey"
  parse_Certificate :: "octets \<Rightarrow> string + pkijsCertificate"

subsection \<open>Constants\<close>

definition MAX_RAMF_MESSAGE_LENGTH :: nat where
  "MAX_RAMF_MESSAGE_LENGTH = 9437184"

definition MAX_RECIPIENT_ADDRESS_LENGTH :: nat where
  "MAX_RECIPIENT_ADDRESS_LENGTH = 1024"

definition MAX_ID_LENGTH :: nat where
  "MAX_ID_LENGTH = 64"

definition RAMF_MAX_TTL :: int where
  "RAMF_MAX_TTL = 15552000"

definition MAX_PAYLOAD_LENGTH :: nat where
  "MAX_PAYLOAD_LENGTH = 2 ^ 23 - 1"

definition is_private_address_char :: "char \<Rightarrow> bool" where
  "is_private_address_char c = (c \<in> set ''abcdef0123456789'')"

text \<open>The regular expression \<open>/^[a-f0-9]+$/\<close>, matched against the whole string.\<close>

definition PRIVATE_ADDRESS_REGEX :: "string \<Rightarrow> bool" where
  "PRIVATE_ADDRESS_REGEX s = (s \<noteq> [] \<and> list_all is_private_address_char s)"

definition FORMAT_SIGNATURE_CONSTANT :: octets where
  "FORMAT_SIGNATURE_CONSTANT = [0x52, 0x65, 0x6c, 0x61, 0x79, 0x6e, 0x65, 0x74]"

text \<open>
  Modelled from the spec: \<open>generateFormatSignature\<close>, whose module is not among the
  sources: the 8 ASCII bytes \<open>Relaynet\<close> followed by one byte for the concrete message
  type and one byte for the concrete message version.
\<close>

definition generateFormatSignature :: "nat \<Rightarrow> nat \<Rightarrow> octets" where
  "generateFormatSignature typeOctet versionOctet =
     FORMAT_SIGNATURE_CONSTANT @ [of_nat typeOctet, of_nat versionOctet]"

subsection \<open>Validation\<close>

definition validateMessageLength :: "octets \<Rightarrow> error + unit" where
  "validateMessageLength serialization =
     (if MAX_RAMF_MESSAGE_LENGTH < length serialization
      then Inl (RAMFSyntaxError (''Message should not be longer than 9 MiB (got ''
                  @ nat_to_string 10 (length serialization) @ '' octets)''))
      else Inr ())"

definition decimalToHex :: "nat \<Rightarrow> string" where
  "decimalToHex numberDecimal = ''0x'' @ nat_to_string 16 numberDecimal"

definition validateFileFormatSignature ::
    "MessageFormatSignature \<Rightarrow> nat \<Rightarrow> nat \<Rightarrow> error + unit" where
  "validateFileFormatSignature messageFields concreteMessageTypeOctet concreteMessageVersionOctet =
     (if concreteMessageType messageFields \<noteq> concreteMessageTypeOctet
      then Inl (RAMFSyntaxError (''Expected concrete message type ''
                  @ decimalToHex concreteMessageTypeOctet @ '' but got ''
                  @ decimalToHex (concreteMessageType messageFields)))
      else if concreteMessageVersion messageFields \<noteq> concreteMessageVersionOctet
      then Inl (RAMFSyntaxError (''Expected concrete message version ''
                  @ decimalToHex concreteMessageVersionOctet @ '' but got ''
                  @ decimalToHex (concreteMessageVersion messageFields)))
      else Inr ())"

definition validateRecipientAddress :: "externals \<Rightarrow> string \<Rightarrow> error + unit" where
  "validateRecipientAddress ext address =
     (if new_URL ext address then Inr ()
      else if \<not> PRIVATE_ADDRESS_REGEX address
      then Inl (RAMFValidationError (''Recipient address should be a valid node address (got: ''
                  @ [CHR 0x22] @ address @ [CHR 0x22] @ '')''))
      else Inr ())"

definition validateRecipientAddressLength :: "string \<Rightarrow> error + unit" where
  "validateRecipientAddressLength address =
     (if MAX_RECIPIENT_ADDRESS_LENGTH < length address
      then Inl (RAMFSyntaxError (''Recipient address should not span more than ''
                  @ nat_to_string 10 MAX_RECIPIENT_ADDRESS_LENGTH @ '' characters ''
                  @ ''(got '' @ nat_to_string 10 (length address) @ '')''))
      else Inr ())"

definition validateMessageIdLength :: "string \<Rightarrow> error + unit" where
  "validateMessageIdLength messageId =
     (if MAX_ID_LENGTH < length messageId
      then Inl (RAMFSyntaxError (''Id should not span more than ''
                  @ nat_to_string 10 MAX_ID_LENGTH @ '' characters (got ''
                  @ nat_to_string 10 (length messageId) @ '')''))
      else Inr ())"

definition validateTtl :: "number \<Rightarrow> error + unit" where
  "validateTtl t =
     (if number_lt t (Finite 0) then Inl (RAMFSyntaxError ''TTL cannot be negative'')
      else if number_lt (Finite RAMF_MAX_TTL) t
      then Inl (RAMFSyntaxError (''TTL must be less than '' @ int_to_string RAMF_MAX_TTL
                  @ '' (got '' @ number_to_string t @ '')''))
      else Inr ())"

definition validatePayloadLength :: "octets \<Rightarrow> error + unit" where
  "validatePayloadLength payloadBuffer =
     (if MAX_PAYLOAD_LENGTH < length payloadBuffer
      then Inl (RAMFSyntaxError (''Payload size must not exceed 8 MiB (got ''
                  @ nat_to_string 10 (length payloadBuffer) @ '' octets)''))
      else Inr ())"

subsection \<open>Serialization\<close>

definition serialize ::
    "externals \<Rightarrow> RAMFMessage \<Rightarrow> nat \<Rightarrow> nat \<Rightarrow> CryptoKey \<Rightarrow> SignatureOptions option \<Rightarrow>
     error + octets" where
  "serialize ext message concreteMessageTypeOctet concreteMessageVersionOctet
       senderPrivateKey signatureOptions =
     (case validateRecipientAddressLength (recipientAddress message) of
        Inl e \<Rightarrow> Inl e
      | Inr _ \<Rightarrow>
     (case validateMessageIdLength (id' message) of
        Inl e \<Rightarrow> Inl e
      | Inr _ \<Rightarrow>
     (case validateTtl (ttl message) of
        Inl e \<Rightarrow> Inl e
      | Inr _ \<Rightarrow>
     (case validatePayloadLength (payloadSerialized message) of
        Inl e \<Rightarrow> Inl e
      | Inr _ \<Rightarrow>
        let formatSignature =
              generateFormatSignature concreteMessageTypeOctet concreteMessageVersionOctet;
            fieldSetSerialized =
              fieldSet_toBER ext (recipientAddress message) (id' message)
                (creationDate message) (ttl message) (payloadSerialized message)
        in (case cms_sign ext fieldSetSerialized senderPrivateKey (senderCertificate message)
                   (senderCaCertificateChain message) signatureOptions of
              Inl e \<Rightarrow> Inl e
            | Inr signature \<Rightarrow> Inr (formatSignature @ signature))))))"

subsection \<open>Deserialization\<close>

definition parseMessageFormatSignature :: "octets \<Rightarrow> error + MessageFormatSignature" where
  "parseMessageFormatSignature serialization =
     (if length serialization < 10
      then Inl (RAMFSyntaxError ''Serialization is too small to contain RAMF format signature'')
      else
        let formatSignature = take 10 serialization in
        if FORMAT_SIGNATURE_CONSTANT \<noteq> take 8 formatSignature
        then Inl (RAMFSyntaxError
                    (''RAMF format signature does not begin with '' @ [CHR 0x22] @ ''Relaynet''
                     @ [CHR 0x22]))
        else Inr \<lparr>concreteMessageType = unat (formatSignature ! 8),
                  concreteMessageVersion = unat (formatSignature ! 9)\<rparr>)"

definition getDateFromPrimitiveBlock :: "externals \<Rightarrow> octets \<Rightarrow> error + date" where
  "getDateFromPrimitiveBlock ext block =
     (case asn1DateTimeToDate ext block of
        Inl exc \<Rightarrow> Inl (RAMFValidationError (''Message date is invalid: '' @ exc))
      | Inr d \<Rightarrow> Inr d)"

definition getIntegerFromPrimitiveBlock :: "octets \<Rightarrow> int" where
  "getIntegerFromPrimitiveBlock block = toBigInt block"

definition parseMessageFields :: "externals \<Rightarrow> octets \<Rightarrow> error + MessageFieldSet" where
  "parseMessageFields ext serialization =
     (case verifySchema ext serialization of
        None \<Rightarrow> Inl (RAMFSyntaxError ''Invalid RAMF fields'')
      | Some messageBlock \<Rightarrow>
          let ttlBigInt = getIntegerFromPrimitiveBlock (block_ttl messageBlock) in
          (case getDateFromPrimitiveBlock ext (block_date messageBlock) of
             Inl e \<Rightarrow> Inl e
           | Inr d \<Rightarrow>
               Inr \<lparr>field_recipientAddress =
                       textDecoder_decode ext (block_recipientAddress messageBlock),
                     field_id = textDecoder_decode ext (block_id messageBlock),
                     field_date = d,
                     field_ttl = Number_of_bigint ttlBigInt,
                     field_payload = block_payload messageBlock\<rparr>))"

definition verifySignature :: "externals \<Rightarrow> octets \<Rightarrow> error + SignatureVerification" where
  "verifySignature ext cmsSignedDataSerialized =
     (case cms_verifySignature ext cmsSignedDataSerialized of
        Inl cause \<Rightarrow> Inl (RAMFValidationError (''Invalid RAMF message signature: '' @ cause))
      | Inr v \<Rightarrow> Inr v)"

text \<open>
  Modelled from the spec: the constructor of a RAMF message (\<open>Parcel\<close>, \<open>Cargo\<close>),
  whose module is not among the sources. It stores the recipient address, the sender
  certificate and the payload, and the options given: the id (a random UUID by default,
  an argument here), the creation date, the TTL and the sender's certificate chain.
\<close>

definition new_RAMFMessage ::
    "string \<Rightarrow> Certificate \<Rightarrow> octets \<Rightarrow> string \<Rightarrow> date \<Rightarrow> number \<Rightarrow> Certificate list \<Rightarrow>
     RAMFMessage" where
  "new_RAMFMessage address sender payload messageId created seconds chain =
     \<lparr>recipientAddress = address, id' = messageId, creationDate = created, ttl = seconds,
      payloadSerialized = payload, senderCertificate = sender,
      senderCaCertificateChain = chain\<rparr>"

definition deserialize :: "externals \<Rightarrow> octets \<Rightarrow> nat \<Rightarrow> nat \<Rightarrow> error + RAMFMessage" where
  "deserialize ext serialization concreteMessageTypeOctet concreteMessageVersionOctet =
     (case validateMessageLength serialization of
        Inl e \<Rightarrow> Inl e
      | Inr _ \<Rightarrow>
     (case parseMessageFormatSignature (take 10 serialization) of
        Inl e \<Rightarrow> Inl e
      | Inr messageFormatSignature \<Rightarrow>
     (case validateFileFormatSignature messageFormatSignature
             concreteMessageTypeOctet concreteMessageVersionOctet of
        Inl e \<Rightarrow> Inl e
      | Inr _ \<Rightarrow>
     (case verifySignature ext (drop 10 serialization) of
        Inl e \<Rightarrow> Inl e
      | Inr signatureVerification \<Rightarrow>
     (case parseMessageFields ext (plaintext signatureVerification) of
        Inl e \<Rightarrow> Inl e
      | Inr messageFields \<Rightarrow>
     (case validateRecipientAddressLength (field_recipientAddress messageFields) of
        Inl e \<Rightarrow> Inl e
      | Inr _ \<Rightarrow>
     (case validateRecipientAddress ext (field_recipientAddress messageFields) of
        Inl e \<Rightarrow> Inl e
      | Inr _ \<Rightarrow>
     (case validateMessageIdLength (field_id messageFields) of
        Inl e \<Rightarrow> Inl e
      | Inr _ \<Rightarrow>
     (case validateTtl (field_ttl messageFields) of
        Inl e \<Rightarrow> Inl e
      | Inr _ \<Rightarrow>
     (case validatePayloadLength (field_payload messageFields) of
        Inl e \<Rightarrow> Inl e
      | Inr _ \<Rightarrow>
          Inr (new_RAMFMessage (field_recipientAddress messageFields)
                 (signerCertificate signatureVerification) (field_payload messageFields)
                 (field_id messageFields) (field_date messageFields)
                 (field_ttl messageFields)
                 (attachedCertificates signatureVerification))))))))))))"

text \<open>
  The steps of \<open>deserialize\<close> up to and including \<open>parseMessageFields\<close>, and the
  message it constructs at the end; \<open>deserialize_after_parsing\<close> below relates them to
  \<open>deserialize\<close>. They serve to state what happens once the field set has been decoded.
\<close>

definition parseSerialization ::
    "externals \<Rightarrow> octets \<Rightarrow> nat \<Rightarrow> nat \<Rightarrow> error + SignatureVerification \<times> MessageFieldSet" where
  "parseSerialization ext serialization concreteMessageTypeOctet concreteMessageVersionOctet =
     (case validateMessageLength serialization of
        Inl e \<Rightarrow> Inl e
      | Inr _ \<Rightarrow>
     (case parseMessageFormatSignature (take 10 serialization) of
        Inl e \<Rightarrow> Inl e
      | Inr messageFormatSignature \<Rightarrow>
     (case validateFileFormatSignature messageFormatSignature
             concreteMessageTypeOctet concreteMessageVersionOctet of
        Inl e \<Rightarrow> Inl e
      | Inr _ \<Rightarrow>
     (case verifySignature ext (drop 10 serialization) of
        Inl e \<Rightarrow> Inl e
      | Inr signatureVerification \<Rightarrow>
     (case parseMessageFields ext (plaintext signatureVerification) of
        Inl e \<Rightarrow> Inl e
      | Inr messageFields \<Rightarrow> Inr (signatureVerification, messageFields))))))"

definition messageFromFields :: "SignatureVerification \<Rightarrow> MessageFieldSet \<Rightarrow> RAMFMessage" where
  "messageFromFields v f =
     new_RAMFMessage (field_recipientAddress f) (signerCertificate v) (field_payload f)
       (field_id f) (field_date f) (field_ttl f) (attachedCertificates v)"

section \<open>Test doubles and example values\<close>

text \<open>
  Concrete stand-ins for the dependencies (no cryptography, a toy field-set codec) and
  example values, used to instantiate the theorems at concrete inputs.
\<close>

definition example_certificate :: Certificate where
  "example_certificate =
     new_Certificate
       \<lparr>version = 2, serialNumber = [1], notBefore = 0, notAfter = 86400000,
        subject = [\<lparr>attr_type = ''2.5.4.3'', attr_value = OtherValue [0x30]\<rparr>],
        issuer = [\<lparr>attr_type = ''2.5.4.3'', attr_value = OtherValue [0x30]\<rparr>],
        extensions = Some [\<lparr>extnID = ''2.5.29.19'', critical = True, extnValue = [1, 0]\<rparr>],
        subjectPublicKeyInfo = Some [7], signatureValue = Some [9]\<rparr>"

definition stub_externals :: externals where
  "stub_externals =
     \<lparr>new_URL = (\<lambda>s. take 8 s = ''https://''),
      fieldSet_toBER = (\<lambda>a i d t p. p),
      cms_sign = (\<lambda>d k c cs opt. Inr d),
      cms_verifySignature =
        (\<lambda>s. if s = [] then Inl ''empty''
             else Inr \<lparr>plaintext = s, signerCertificate = example_certificate,
                       attachedCertificates = []\<rparr>),
      verifySchema =
        (\<lambda>s. case s of
               [] \<Rightarrow> None
             | a # rest \<Rightarrow>
                 Some \<lparr>block_recipientAddress = [a], block_id = [], block_date = [],
                       block_ttl = rest, block_payload = []\<rparr>),
      asn1DateTimeToDate = (\<lambda>b. Inr 0),
      textDecoder_decode =
        (\<lambda>b. if b = [] then ''msg-1'' else if b = [0x41] then ''ABCDEF'' else ''0abc''),
      value_toBER = (\<lambda>v. case v of OtherValue bs \<Rightarrow> bs | _ \<Rightarrow> []),
      derDeserialize = (\<lambda>bs. Inr (OtherValue bs)),
      parse_BasicConstraints =
        (\<lambda>bs. case bs of
                [c, p] \<Rightarrow> Inr \<lparr>cA = (c \<noteq> 0), bc_pathLenConstraint = Some (uint p)\<rparr>
              | _ \<Rightarrow> Inl ''malformed''),
      BasicConstraints_toBER =
        (\<lambda>b. [if cA b then 1 else 0,
              case bc_pathLenConstraint b of None \<Rightarrow> 0 | Some p \<Rightarrow> of_int p]),
      AuthorityKeyIdentifier_toBER = (\<lambda>k. k),
      OctetString_toBER = (\<lambda>k. k),
      getPublicKeyDigest = (\<lambda>k. k),
      certificate_getPublicKey =
        (\<lambda>c. case subjectPublicKeyInfo c of None \<Rightarrow> Inl ''no key'' | Some k \<Rightarrow> Inr k),
      certificate_sign = (\<lambda>c k. Inr k),
      importKey = (\<lambda>k. if k = [] then Inl ''unsupported key'' else Inr k),
      parse_Certificate = (\<lambda>bs. Inl ''malformed'')\<rparr>"

definition example_message :: RAMFMessage where
  "example_message =
     \<lparr>recipientAddress = ''0abc'', id' = ''msg-1'', creationDate = 0, ttl = Finite 1000,
      payloadSerialized = [0x30, 0x00], senderCertificate = example_certificate,
      senderCaCertificateChain = []\<rparr>"

definition example_serialization :: "octets \<Rightarrow> octets" where
  "example_serialization ttlOctets =
     [0x52, 0x65, 0x6c, 0x61, 0x79, 0x6e, 0x65, 0x74, 0x50, 0x00, 0x30] @ ttlOctets"

definition oversized_externals :: externals where
  "oversized_externals =
     stub_externals\<lparr>cms_sign := (\<lambda>d k c cs opt. Inr (replicate 9437184 0))\<rparr>"

section \<open>Private key store\<close>

record SessionPrivateKeyData =
  keySerialized :: octets
  privateAddress :: string
  peerPrivateAddress :: "string option"

text \<open>
  The abstract method \<open>retrieveSessionKeyData\<close> of a store, which a backend implements:
  it returns the record stored under a key id in hexadecimal, or \<open>null\<close>, or throws (the
  message of the error on the left). \<open>derDeserializeECDHPrivateKey\<close> belongs to the
  key wrappers and is passed with the store.
\<close>

record PrivateKeyStore =
  retrieveSessionKeyData :: "string \<Rightarrow> string + SessionPrivateKeyData option"
  derDeserializeECDHPrivateKey :: "octets \<Rightarrow> string \<Rightarrow> string + CryptoKey"

text \<open>JavaScript truthiness of an optional string: defined and not empty.\<close>

definition truthy :: "string option \<Rightarrow> bool" where
  "truthy s = (case s of None \<Rightarrow> False | Some x \<Rightarrow> x \<noteq> [])"

definition deserializeStoredKey :: "PrivateKeyStore \<Rightarrow> octets \<Rightarrow> error + CryptoKey" where
  "deserializeStoredKey store der =
     (case derDeserializeECDHPrivateKey store der ''P-256'' of
        Inl cause \<Rightarrow> Inl (NativeError cause)
      | Inr k \<Rightarrow> Inr k)"

definition retrieveSessionKeyDataOrThrowError ::
    "PrivateKeyStore \<Rightarrow> octets \<Rightarrow> string \<Rightarrow> error + SessionPrivateKeyData" where
  "retrieveSessionKeyDataOrThrowError store keyId nodePrivateAddress =
     (let keyIdHex = toString_hex keyId in
      case retrieveSessionKeyData store keyIdHex of
        Inl cause \<Rightarrow> Inl (KeyStoreError (''Failed to retrieve key: '' @ cause))
      | Inr None \<Rightarrow> Inl (UnknownKeyError (''Key '' @ keyIdHex @ '' does not exist''))
      | Inr (Some keyData) \<Rightarrow>
          if privateAddress keyData \<noteq> nodePrivateAddress
          then Inl (UnknownKeyError ''Key is owned by a different node'')
          else Inr keyData)"

definition retrieveUnboundSessionKey ::
    "PrivateKeyStore \<Rightarrow> octets \<Rightarrow> string \<Rightarrow> error + CryptoKey" where
  "retrieveUnboundSessionKey store keyId nodePrivateAddress =
     (case retrieveSessionKeyDataOrThrowError store keyId nodePrivateAddress of
        Inl e \<Rightarrow> Inl e
      | Inr keyData \<Rightarrow>
          if truthy (peerPrivateAddress keyData)
          then Inl (UnknownKeyError (''Key '' @ toString_hex keyId @ '' is bound''))
          else deserializeStoredKey store (keySerialized keyData))"

definition retrieveSessionKey ::
    "PrivateKeyStore \<Rightarrow> octets \<Rightarrow> string \<Rightarrow> string \<Rightarrow> error + CryptoKey" where
  "retrieveSessionKey store keyId nodePrivateAddress peer =
     (case retrieveSessionKeyDataOrThrowError store keyId nodePrivateAddress of
        Inl e \<Rightarrow> Inl e
      | Inr keyData \<Rightarrow>
          let keyIdHex = toString_hex keyId in
          if truthy (peerPrivateAddress keyData) \<and> Some peer \<noteq> peerPrivateAddress keyData
          then Inl (UnknownKeyError
                      (''Session key '' @ keyIdHex @ '' is bound to another recipient ''
                       @ ''('' @ the (peerPrivateAddress keyData) @ '', not '' @ peer @ '')''))
          else deserializeStoredKey store (keySerialized keyData))"

text \<open>A store backed by an association list, as the mock store of the tests is by an object.\<close>

definition mock_store :: "(string \<times> SessionPrivateKeyData) list \<Rightarrow> PrivateKeyStore" where
  "mock_store sessionKeys =
     \<lparr>retrieveSessionKeyData = (\<lambda>keyId. Inr (map_of sessionKeys keyId)),
      derDeserializeECDHPrivateKey = (\<lambda>der curve. if der = [] then Inl ''malformed'' else Inr der)\<rparr>"

definition example_bound_key :: SessionPrivateKeyData where
  "example_bound_key =
     \<lparr>keySerialized = [0x30, 0x01], privateAddress = ''0owner'',
      peerPrivateAddress = Some ''0peerp''\<rparr>"

definition example_unbound_key :: SessionPrivateKeyData where
  "example_unbound_key =
     \<lparr>keySerialized = [0x30, 0x02], privateAddress = ''0owner'', peerPrivateAddress = None\<rparr>"

section \<open>Certificate issuance and validation\<close>








text \<open>
  The serial number is built from a random value, which \<open>generateRandom64BitValue\<close>
  draws and the model takes as an argument. The result is the content octets of the
  INTEGER.
\<close>

definition generatePositiveASN1Integer :: "octets \<Rightarrow> octets" where
  "generatePositiveASN1Integer signedInteger =
     (case signedInteger of
        [] \<Rightarrow> signedInteger
      | b # _ \<Rightarrow> if 127 < unat b then 0 # signedInteger else signedInteger)"








definition Certificate_deserialize :: "externals \<Rightarrow> octets \<Rightarrow> error + Certificate" where
  "Certificate_deserialize ext certDer =
     (case parse_Certificate ext certDer of
        Inl cause \<Rightarrow> Inl (NativeError cause)
      | Inr pkijsCert \<Rightarrow> Inr (new_Certificate pkijsCert))"

text \<open>\<open>validate()\<close>; the current time is an argument.\<close>

definition Certificate_validate :: "date \<Rightarrow> Certificate \<Rightarrow> error + unit" where
  "Certificate_validate currentDate c =
     (let x509CertVersion = version (pkijsCertificate c) + 1 in
      if x509CertVersion \<noteq> 3
      then Inl (CertificateError (''Only X.509 v3 certificates are supported (got v''
                  @ int_to_string x509CertVersion @ '')''))
      else if currentDate < startDate c then Inl (CertificateError ''Certificate is not yet valid'')
      else if expiryDate c < currentDate then Inl (CertificateError ''Certificate already expired'')
      else Inr ())"

definition example_expired_v1 :: pkijsCertificate where
  "example_expired_v1 =
     \<lparr>version = 0, serialNumber = [1], notBefore = 1000, notAfter = 2000,
      subject = [], issuer = [], extensions = None,
      subjectPublicKeyInfo = Some [7], signatureValue = Some [9]\<rparr>"

definition parsing_externals :: "pkijsCertificate \<Rightarrow> externals" where
  "parsing_externals c =
     stub_externals\<lparr>parse_Certificate := (\<lambda>der. if der = [] then Inl ''malformed'' else Inr c)\<rparr>"





section \<open>CMS EnvelopedData\<close>

definition ENVELOPED_DATA :: string where
  "ENVELOPED_DATA = ''1.2.840.113549.1.7.3''"

definition ORIGINATOR_EPHEMERAL_CERT_SERIAL_NUMBER :: string where
  "ORIGINATOR_EPHEMERAL_CERT_SERIAL_NUMBER = ''0.4.0.127.0.17.0.1.0''"

definition AES_KEY_SIZES :: "int list" where
  "AES_KEY_SIZES = [128, 192, 256]"

record EncryptionOptions =
  aesKeySize :: "int option"

record SessionKey =
  keyId :: octets
  publicKey :: CryptoKey

record ContentInfo =
  contentType :: string
  content :: octets

text \<open>
  An attribute with its values, each an OCTET STRING given by its content octets. The
  property \<open>values\<close> is an array in an attribute that the program constructs; in one
  parsed from DER whose set of values is empty, PKI.js leaves it undefined (\<open>None\<close>).
\<close>

record Attribute =
  attribute_type :: string
  attribute_values :: "octets list option"

record RecipientInfo =
  variant :: int
  recipientInfo_value :: octets

record pkijsEnvelopedData =
  recipientInfos :: "RecipientInfo list"
  unprotectedAttrs :: "Attribute list option"
  encryptedContent :: octets

datatype EnvelopedData =
    SessionlessEnvelopedData pkijsEnvelopedData
  | SessionEnvelopedData pkijsEnvelopedData

record SessionEncryptionResult =
  dhKeyId :: octets
  dhPrivateKey :: CryptoKey
  envelopedData :: EnvelopedData

text \<open>
  What the EnvelopedData wrapper calls in PKI.js and in the CMS utilities of the library:
  the deserialization of the ContentInfo (which raises a CMS error itself), the parsing
  of the EnvelopedData value, the extraction of the originator's public key from a
  KeyAgreeRecipientInfo, the construction of the RecipientInfo and the encryption, which
  for a key agreement also returns the ephemeral private key.
\<close>

record cms_externals =
  deserializeContentInfo :: "octets \<Rightarrow> error + ContentInfo"
  parse_EnvelopedData :: "octets \<Rightarrow> string + pkijsEnvelopedData"
  originatorPublicKey :: "RecipientInfo \<Rightarrow> error + CryptoKey"
  addRecipientByCertificate :: "Certificate \<Rightarrow> string + RecipientInfo"
  addRecipientByKeyIdentifier :: "CryptoKey \<Rightarrow> octets \<Rightarrow> string + RecipientInfo"
  pkijs_encrypt ::
    "pkijsEnvelopedData \<Rightarrow> int \<Rightarrow> octets \<Rightarrow> string + pkijsEnvelopedData \<times> CryptoKey option"

definition EnvelopedData_deserialize :: "cms_externals \<Rightarrow> octets \<Rightarrow> error + EnvelopedData" where
  "EnvelopedData_deserialize cms envelopedDataSerialized =
     (case deserializeContentInfo cms envelopedDataSerialized of
        Inl e \<Rightarrow> Inl e
      | Inr contentInfo \<Rightarrow>
          if contentType contentInfo \<noteq> ENVELOPED_DATA
          then Inl (CMSError (''ContentInfo does not wrap an EnvelopedData value (got OID ''
                      @ contentType contentInfo @ '')''))
          else
         (case parse_EnvelopedData cms (content contentInfo) of
            Inl cause \<Rightarrow> Inl (CMSError (''Invalid EnvelopedData value: '' @ cause))
          | Inr pkijsEnvelopedData \<Rightarrow>
              let recipientInfosLength = length (recipientInfos pkijsEnvelopedData) in
              if recipientInfosLength \<noteq> 1
              then Inl (CMSError (''EnvelopedData must have exactly one RecipientInfo (got ''
                          @ nat_to_string 10 recipientInfosLength @ '')''))
              else
                let recipientInfo = recipientInfos pkijsEnvelopedData ! 0 in
                if variant recipientInfo \<notin> set [1, 2]
                then Inl (CMSError (''Unsupported RecipientInfo (variant: ''
                            @ int_to_string (variant recipientInfo) @ '')''))
                else if variant recipientInfo = 1
                then Inr (SessionlessEnvelopedData pkijsEnvelopedData)
                else Inr (SessionEnvelopedData pkijsEnvelopedData)))"

text \<open>
  \<open>getAesKeySize\<close>. The source tests the truthiness of the optional number: absent and
  zero are falsy.
\<close>

definition getAesKeySize :: "int option \<Rightarrow> error + int" where
  "getAesKeySize requested =
     (let given = (case requested of None \<Rightarrow> False | Some n \<Rightarrow> n \<noteq> 0) in
      if given \<and> the requested \<notin> set AES_KEY_SIZES
      then Inl (CMSError (''Invalid AES key size ('' @ int_to_string (the requested) @ '')''))
      else Inr (if given then the requested else 128))"

definition extractOriginatorKeyId :: "pkijsEnvelopedData \<Rightarrow> error + octets" where
  "extractOriginatorKeyId ed =
     (let attrs = (case unprotectedAttrs ed of None \<Rightarrow> [] | Some a \<Rightarrow> a) in
      if length attrs = 0
      then Inl (CMSError ''unprotectedAttrs must be present when using channel session'')
      else
        let matchingAttrs =
              filter (\<lambda>a. attribute_type a = ORIGINATOR_EPHEMERAL_CERT_SERIAL_NUMBER) attrs
        in
        if length matchingAttrs = 0
        then Inl (CMSError ''unprotectedAttrs does not contain originator key id'')
        else
         (case attribute_values (matchingAttrs ! 0) of
            None \<Rightarrow> Inl (NativeError ''TypeError'')
          | Some originatorKeyIds \<Rightarrow>
              if length originatorKeyIds \<noteq> 1
              then Inl (CMSError
                          (''Originator key id attribute must have exactly one value (got ''
                           @ nat_to_string 10 (length originatorKeyIds) @ '')''))
              else Inr (originatorKeyIds ! 0)))"

text \<open>
  \<open>SessionEnvelopedData.getOriginatorKey\<close>. Reading \<open>recipientInfos[0]\<close> of an empty
  list makes the access to its \<open>variant\<close> throw a \<open>TypeError\<close>.
\<close>

definition getOriginatorKey :: "cms_externals \<Rightarrow> pkijsEnvelopedData \<Rightarrow> error + SessionKey" where
  "getOriginatorKey cms ed =
     (case extractOriginatorKeyId ed of
        Inl e \<Rightarrow> Inl e
      | Inr kid \<Rightarrow>
         (case recipientInfos ed of
            [] \<Rightarrow> Inl (NativeError ''TypeError'')
          | recipientInfo # _ \<Rightarrow>
              if variant recipientInfo \<noteq> 2
              then Inl (CMSError (''Expected KeyAgreeRecipientInfo (got variant: ''
                          @ int_to_string (variant recipientInfo) @ '')''))
              else
               (case originatorPublicKey cms recipientInfo of
                  Inl e \<Rightarrow> Inl e
                | Inr pk \<Rightarrow> Inr \<lparr>keyId = kid, publicKey = pk\<rparr>)))"

definition SessionlessEnvelopedData_encrypt ::
    "cms_externals \<Rightarrow> octets \<Rightarrow> Certificate \<Rightarrow> EncryptionOptions \<Rightarrow> error + EnvelopedData" where
  "SessionlessEnvelopedData_encrypt cms plain certificate options =
     (case addRecipientByCertificate cms certificate of
        Inl cause \<Rightarrow> Inl (NativeError cause)
      | Inr recipientInfo \<Rightarrow>
         (case getAesKeySize (aesKeySize options) of
            Inl e \<Rightarrow> Inl e
          | Inr keySize \<Rightarrow>
             (case pkijs_encrypt cms
                     \<lparr>recipientInfos = [recipientInfo], unprotectedAttrs = None,
                      encryptedContent = []\<rparr> keySize plain of
                Inl cause \<Rightarrow> Inl (NativeError cause)
              | Inr (ed, _) \<Rightarrow> Inr (SessionlessEnvelopedData ed))))"

text \<open>
  \<open>SessionEnvelopedData.encrypt\<close>; the random id of the ephemeral key is an argument.
\<close>

definition SessionEnvelopedData_encrypt ::
    "cms_externals \<Rightarrow> octets \<Rightarrow> octets \<Rightarrow> SessionKey \<Rightarrow> EncryptionOptions \<Rightarrow>
     error + SessionEncryptionResult" where
  "SessionEnvelopedData_encrypt cms random64 plain recipientSessionKey options =
     (let dhKeyIdAttribute =
            \<lparr>attribute_type = ORIGINATOR_EPHEMERAL_CERT_SERIAL_NUMBER,
             attribute_values = Some [random64]\<rparr>
      in
      case addRecipientByKeyIdentifier cms (publicKey recipientSessionKey)
             (keyId recipientSessionKey) of
        Inl cause \<Rightarrow> Inl (NativeError cause)
      | Inr recipientInfo \<Rightarrow>
         (case getAesKeySize (aesKeySize options) of
            Inl e \<Rightarrow> Inl e
          | Inr keySize \<Rightarrow>
             (case pkijs_encrypt cms
                     \<lparr>recipientInfos = [recipientInfo],
                      unprotectedAttrs = Some [dhKeyIdAttribute],
                      encryptedContent = []\<rparr> keySize plain of
                Inl cause \<Rightarrow> Inl (NativeError cause)
              | Inr (ed, None) \<Rightarrow> Inl (NativeError ''pkijsEncryptionResult is undefined'')
              | Inr (ed, Some dhKey) \<Rightarrow>
                  Inr \<lparr>dhKeyId = random64, dhPrivateKey = dhKey,
                        envelopedData = SessionEnvelopedData ed\<rparr>)))"

definition stub_cms :: cms_externals where
  "stub_cms =
     \<lparr>deserializeContentInfo =
        (\<lambda>der. if der = [] then Inl (CMSError ''Could not deserialize CMS ContentInfo'')
                else Inr \<lparr>contentType = ''1.2.840.113549.1.7.3'', content = der\<rparr>),
      parse_EnvelopedData =
        (\<lambda>der. Inr \<lparr>recipientInfos =
                       map (\<lambda>b. \<lparr>variant = uint b, recipientInfo_value = []\<rparr>) der,
                     unprotectedAttrs = None, encryptedContent = []\<rparr>),
      originatorPublicKey = (\<lambda>ri. Inr (recipientInfo_value ri)),
      addRecipientByCertificate = (\<lambda>c. Inr \<lparr>variant = 1, recipientInfo_value = []\<rparr>),
      addRecipientByKeyIdentifier = (\<lambda>k kid. Inr \<lparr>variant = 2, recipientInfo_value = kid\<rparr>),
      pkijs_encrypt = (\<lambda>ed keySize plain. Inr (ed\<lparr>encryptedContent := plain\<rparr>, Some [1]))\<rparr>"

section \<open>Gateway channel\<close>

text \<open>
  The \<open>Date\<close> methods that \<open>getCargoCreationTime\<close> calls work on local time. They
  follow ECMAScript (\<open>LocalTZA\<close>, \<open>LocalTime\<close>, \<open>MakeTime\<close>, \<open>MakeDate\<close>,
  \<open>UTC\<close>). The time zone of the process is an argument: \<open>LocalTZA tz t True\<close> is the
  offset of local time from UTC, in milliseconds, in force at the instant \<open>t\<close>, and
  \<open>LocalTZA tz t False\<close> the offset with which the local time value \<open>t\<close> is read, which
  for a local time that a transition skips or repeats is the offset before the transition.
\<close>

record TimeZone =
  LocalTZA :: "int \<Rightarrow> bool \<Rightarrow> int"

definition msPerDay :: int where "msPerDay = 86400000"

definition msPerHour :: int where "msPerHour = 3600000"

definition msPerMinute :: int where "msPerMinute = 60000"

definition msPerSecond :: int where "msPerSecond = 1000"

definition Day :: "int \<Rightarrow> int" where "Day t = t div msPerDay"

definition HourFromTime :: "int \<Rightarrow> int" where "HourFromTime t = (t div msPerHour) mod 24"

definition MinFromTime :: "int \<Rightarrow> int" where "MinFromTime t = (t div msPerMinute) mod 60"

definition SecFromTime :: "int \<Rightarrow> int" where "SecFromTime t = (t div msPerSecond) mod 60"

definition msFromTime :: "int \<Rightarrow> int" where "msFromTime t = t mod msPerSecond"

definition MakeTime :: "int \<Rightarrow> int \<Rightarrow> int \<Rightarrow> int \<Rightarrow> int" where
  "MakeTime h m s ms = h * msPerHour + m * msPerMinute + s * msPerSecond + ms"

definition MakeDate :: "int \<Rightarrow> int \<Rightarrow> int" where
  "MakeDate day time = day * msPerDay + time"

definition LocalTime :: "TimeZone \<Rightarrow> date \<Rightarrow> int" where
  "LocalTime tz t = t + LocalTZA tz t True"

definition UTC :: "TimeZone \<Rightarrow> int \<Rightarrow> date" where
  "UTC tz t = t - LocalTZA tz t False"

definition Date_getHours :: "TimeZone \<Rightarrow> date \<Rightarrow> int" where
  "Date_getHours tz t = HourFromTime (LocalTime tz t)"

definition Date_setMilliseconds :: "TimeZone \<Rightarrow> date \<Rightarrow> int \<Rightarrow> date" where
  "Date_setMilliseconds tz t ms =
     (let l = LocalTime tz t in
      UTC tz (MakeDate (Day l) (MakeTime (HourFromTime l) (MinFromTime l) (SecFromTime l) ms)))"

definition Date_setHours :: "TimeZone \<Rightarrow> date \<Rightarrow> int \<Rightarrow> date" where
  "Date_setHours tz t h =
     (let l = LocalTime tz t in
      UTC tz (MakeDate (Day l) (MakeTime h (MinFromTime l) (SecFromTime l) (msFromTime l))))"

definition CLOCK_DRIFT_TOLERANCE_HOURS :: int where
  "CLOCK_DRIFT_TOLERANCE_HOURS = 3"

text \<open>
  \<open>getCargoCreationTime\<close>; the time zone of the process and the value of \<open>new Date()\<close>
  are arguments.
\<close>

definition getCargoCreationTime :: "TimeZone \<Rightarrow> date \<Rightarrow> date" where
  "getCargoCreationTime tz now =
     (let d = Date_setMilliseconds tz now 0 in
      Date_setHours tz d (Date_getHours tz d - CLOCK_DRIFT_TOLERANCE_HOURS))"

definition getSecondsBetweenDates :: "date \<Rightarrow> date \<Rightarrow> int" where
  "getSecondsBetweenDates d expiry = (expiry - d) div 1000"

text \<open>
  Modelled from the spec: the constructor of \<open>Cargo\<close>, whose module is not among the
  sources: the constructor of a RAMF message, here called with the creation date and the
  TTL as its only options, so that the sender's certificate chain is empty.
\<close>

definition new_Cargo ::
    "string \<Rightarrow> Certificate \<Rightarrow> octets \<Rightarrow> string \<Rightarrow> date \<Rightarrow> number \<Rightarrow> RAMFMessage" where
  "new_Cargo address sender payload uuid created seconds =
     new_RAMFMessage address sender payload uuid created seconds []"

text \<open>
  Modelled from the spec: the concrete message type and version octets of \<open>Cargo\<close>,
  with which \<open>cargo.serialize\<close> calls the RAMF serialization.
\<close>

definition CARGO_TYPE_OCTET :: nat where "CARGO_TYPE_OCTET = 0x43"

definition CARGO_VERSION_OCTET :: nat where "CARGO_VERSION_OCTET = 0"

text \<open>
  The channel: the node's key and delivery authorization, the address that
  \<open>getOutboundRAMFAddress\<close> returns, the signature options and \<open>wrapMessagePayload\<close>.
\<close>

record GatewayChannel =
  nodePrivateKey :: CryptoKey
  nodeDeliveryAuth :: Certificate
  outboundRAMFAddress :: string
  signatureOptions :: "SignatureOptions option"
  wrapMessagePayload :: "octets \<Rightarrow> error + octets"

text \<open>
  One iteration of the loop takes a batch of \<open>CargoMessageSet.batchMessagesSerialized\<close>
  (serialization and expiry date) and, from the environment, the current time and the
  UUID drawn for the cargo.
\<close>

record CargoBatch =
  batch_now :: date
  batch_uuid :: string
  messageSerialized :: octets
  batch_expiryDate :: date

definition encryptPayload :: "GatewayChannel \<Rightarrow> octets \<Rightarrow> error + octets" where
  "encryptPayload channel payloadPlaintext = wrapMessagePayload channel payloadPlaintext"

text \<open>The cargo that an iteration constructs, given the encrypted payload.\<close>

definition buildCargo ::
    "TimeZone \<Rightarrow> GatewayChannel \<Rightarrow> CargoBatch \<Rightarrow> octets \<Rightarrow> RAMFMessage" where
  "buildCargo tz channel batch payload =
     (let created = getCargoCreationTime tz (batch_now batch);
          seconds = getSecondsBetweenDates created (batch_expiryDate batch)
      in new_Cargo (outboundRAMFAddress channel) (nodeDeliveryAuth channel) payload
           (batch_uuid batch) created (Finite (min seconds RAMF_MAX_TTL)))"

text \<open>
  \<open>generateCargoes\<close>: the buffers yielded, and the error that ended the generator, if
  any.
\<close>

fun generateCargoes ::
    "externals \<Rightarrow> TimeZone \<Rightarrow> GatewayChannel \<Rightarrow> CargoBatch list \<Rightarrow>
     octets list \<times> error option" where
  "generateCargoes ext tz channel [] = ([], None)"
| "generateCargoes ext tz channel (batch # rest) =
     (case encryptPayload channel (messageSerialized batch) of
        Inl e \<Rightarrow> ([], Some e)
      | Inr payload \<Rightarrow>
         (case serialize ext (buildCargo tz channel batch payload)
                 CARGO_TYPE_OCTET CARGO_VERSION_OCTET (nodePrivateKey channel)
                 (signatureOptions channel) of
            Inl e \<Rightarrow> ([], Some e)
          | Inr cargoSerialized \<Rightarrow>
              (case generateCargoes ext tz channel rest of
                 (yielded, r) \<Rightarrow> (cargoSerialized # yielded, r))))"

definition example_channel :: GatewayChannel where
  "example_channel =
     \<lparr>nodePrivateKey = [1], nodeDeliveryAuth = example_certificate,
      outboundRAMFAddress = ''0abc'', signatureOptions = None,
      wrapMessagePayload = (\<lambda>p. Inr p)\<rparr>"

definition example_batch :: CargoBatch where
  "example_batch =
     \<lparr>batch_now = 1749988800123, batch_uuid = ''msg-1'', messageSerialized = [0x30, 0x00],
      batch_expiryDate = 1749981600999\<rparr>"

text \<open>A time zone with one offset throughout, such as UTC (offset 0).\<close>

definition fixed_offset :: "int \<Rightarrow> TimeZone" where
  "fixed_offset localOffset = \<lparr>LocalTZA = (\<lambda>t isUTC. localOffset)\<rparr>"

text \<open>
  The zone \<open>America/New_York\<close> with its rules of 2025: five hours behind UTC, and four
  from 2025-03-09T07:00:00Z (02:00 local time, which becomes 03:00) until
  2025-11-02T06:00:00Z (02:00 local time, which becomes 01:00). The local times from 02:00
  to 03:00 on 9 March, which are skipped, are read five hours behind UTC, and those from
  01:00 to 02:00 on 2 November, which occur twice, four hours behind.
\<close>

definition america_new_york_2025 :: TimeZone where
  "america_new_york_2025 =
     \<lparr>LocalTZA = (\<lambda>t isUTC.
        if isUTC
        then (if 1741503600000 \<le> t \<and> t < 1762063200000 then - 14400000 else - 18000000)
        else (if 1741503600000 - 14400000 \<le> t \<and> t < 1762063200000 - 14400000
              then - 14400000 else - 18000000))\<rparr>"

section \<open>RAMF: properties\<close>

lemma deserialize_after_parsing:
  "deserialize ext s ty ver =
     (case parseSerialization ext s ty ver of
        Inl e \<Rightarrow> Inl e
      | Inr (v, f) \<Rightarrow>
     (case validateRecipientAddressLength (field_recipientAddress f) of
        Inl e \<Rightarrow> Inl e
      | Inr _ \<Rightarrow>
     (case validateRecipientAddress ext (field_recipientAddress f) of
        Inl e \<Rightarrow> Inl e
      | Inr _ \<Rightarrow>
     (case validateMessageIdLength (field_id f) of
        Inl e \<Rightarrow> Inl e
      | Inr _ \<Rightarrow>
     (case validateTtl (field_ttl f) of
        Inl e \<Rightarrow> Inl e
      | Inr _ \<Rightarrow>
     (case validatePayloadLength (field_payload f) of
        Inl e \<Rightarrow> Inl e
      | Inr _ \<Rightarrow> Inr (messageFromFields v f)))))))"
  by (simp add: deserialize_def parseSerialization_def messageFromFields_def split: sum.splits)

lemma validateTtl_Finite:
  "validateTtl (Finite t) =
     (if t < 0 then Inl (RAMFSyntaxError ''TTL cannot be negative'')
      else if 15552000 < t
      then Inl (RAMFSyntaxError
                  (''TTL must be less than 15552000 (got '' @ number_to_string (Finite t) @ '')''))
      else Inr ())"
  by (simp add: validateTtl_def RAMF_MAX_TTL_def int_to_string_def nat_to_string.simps
      digit_char_def)

lemma validateTtl_error:
  "t < 0 \<or> 15552000 < t \<Longrightarrow> \<exists>msg. validateTtl (Finite t) = Inl (RAMFSyntaxError msg)"
  by (auto simp: validateTtl_Finite)

lemma validateTtl_ok: "0 \<le> t \<Longrightarrow> t \<le> 15552000 \<Longrightarrow> validateTtl (Finite t) = Inr ()"
  by (simp add: validateTtl_Finite)

lemma validateRecipientAddressLength_cases:
  "validateRecipientAddressLength a = Inr () \<or> (\<exists>msg. validateRecipientAddressLength a = Inl (RAMFSyntaxError msg))"
  by (simp add: validateRecipientAddressLength_def)

lemma validateMessageIdLength_cases:
  "validateMessageIdLength a = Inr () \<or> (\<exists>msg. validateMessageIdLength a = Inl (RAMFSyntaxError msg))"
  by (simp add: validateMessageIdLength_def)

lemma serialize_ttl_error:
  assumes "t < 0 \<or> 15552000 < t"
  shows "\<exists>msg. serialize ext (m\<lparr>ttl := Finite t\<rparr>) ty ver key opts = Inl (RAMFSyntaxError msg)"
proof -
  obtain msg where "validateTtl (Finite t) = Inl (RAMFSyntaxError msg)"
    using validateTtl_error [OF assms] by blast
  then show ?thesis
    using validateRecipientAddressLength_cases [of "recipientAddress m"]
      validateMessageIdLength_cases [of "id' m"]
    by (auto simp: serialize_def)
qed

lemma serialize_ttl_ok:
  assumes "0 \<le> t" "t \<le> 15552000"
    and "validateRecipientAddressLength (recipientAddress m) = Inr ()"
    and "validateMessageIdLength (id' m) = Inr ()"
    and "validatePayloadLength (payloadSerialized m) = Inr ()"
    and "cms_sign ext
           (fieldSet_toBER ext (recipientAddress m) (id' m) (creationDate m) (Finite t)
              (payloadSerialized m))
           key (senderCertificate m) (senderCaCertificateChain m) opts = Inr sig"
  shows "serialize ext (m\<lparr>ttl := Finite t\<rparr>) ty ver key opts
           = Inr (generateFormatSignature ty ver @ sig)"
  using assms by (simp add: serialize_def validateTtl_ok)

lemma deserialize_ttl_fails:
  assumes "parseSerialization ext s ty ver = Inr (v, f)" "field_ttl f = Finite t"
    and "t < 0 \<or> 15552000 < t"
  shows "\<exists>e. deserialize ext s ty ver = Inl e"
proof -
  obtain msg where "validateTtl (Finite t) = Inl (RAMFSyntaxError msg)"
    using validateTtl_error [OF assms(3)] by blast
  then show ?thesis
    using assms(1,2) by (simp add: deserialize_after_parsing split: sum.splits)
qed

lemma deserialize_ttl_error:
  assumes "parseSerialization ext s ty ver = Inr (v, f)" "field_ttl f = Finite t"
    and "validateRecipientAddressLength (field_recipientAddress f) = Inr ()"
    and "validateRecipientAddress ext (field_recipientAddress f) = Inr ()"
    and "validateMessageIdLength (field_id f) = Inr ()"
    and "t < 0 \<or> 15552000 < t"
  shows "\<exists>msg. deserialize ext s ty ver = Inl (RAMFSyntaxError msg)"
proof -
  obtain msg where "validateTtl (Finite t) = Inl (RAMFSyntaxError msg)"
    using validateTtl_error [OF assms(6)] by blast
  then show ?thesis
    using assms(1-5) by (simp add: deserialize_after_parsing)
qed

lemma deserialize_ttl_ok:
  assumes "parseSerialization ext s ty ver = Inr (v, f)" "field_ttl f = Finite t"
    and "validateRecipientAddressLength (field_recipientAddress f) = Inr ()"
    and "validateRecipientAddress ext (field_recipientAddress f) = Inr ()"
    and "validateMessageIdLength (field_id f) = Inr ()"
    and "validatePayloadLength (field_payload f) = Inr ()"
    and "0 \<le> t" "t \<le> 15552000"
  shows "deserialize ext s ty ver = Inr (messageFromFields v f)"
  using assms by (simp add: deserialize_after_parsing validateTtl_ok)

lemma parseSerialization_example:
  "parseSerialization stub_externals (example_serialization bs) 0x50 0
     = Inr (\<lparr>plaintext = 0x30 # bs, signerCertificate = example_certificate,
              attachedCertificates = []\<rparr>,
            \<lparr>field_recipientAddress = ''0abc'', field_id = ''msg-1'', field_date = 0,
             field_ttl = Number_of_bigint (toBigInt bs), field_payload = []\<rparr>)"
  if "length bs \<le> 100"
  using that
  by (simp add: parseSerialization_def example_serialization_def validateMessageLength_def
      MAX_RAMF_MESSAGE_LENGTH_def parseMessageFormatSignature_def FORMAT_SIGNATURE_CONSTANT_def
      validateFileFormatSignature_def verifySignature_def stub_externals_def
      parseMessageFields_def getIntegerFromPrimitiveBlock_def getDateFromPrimitiveBlock_def)

lemma Number_of_bigint_small: "\<bar>i\<bar> < 2 ^ 24 \<Longrightarrow> Number_of_bigint i = Finite i"
proof -
  have bl: "bit_length n \<le> 24" if "n < 2 ^ 24" for n :: nat
  proof -
    have "n < 2 ^ k \<Longrightarrow> bit_length n \<le> k" for k
    proof (induction k arbitrary: n)
      case 0
      then show ?case by (simp add: bit_length.simps)
    next
      case (Suc k)
      show ?case
      proof (cases "n = 0")
        case True
        then show ?thesis by (simp add: bit_length.simps)
      next
        case False
        from Suc.prems have "n div 2 < 2 ^ k" by simp
        from Suc.IH [OF this] False show ?thesis by (subst bit_length.simps) simp
      qed
    qed
    from this [of 24] that show ?thesis .
  qed
  assume a: "\<bar>i\<bar> < 2 ^ 24"
  show ?thesis
  proof (cases "0 \<le> i")
    case True
    with a have "nat i < 2 ^ 24" by (simp add: nat_less_iff)
    from bl [OF this] True show ?thesis
      by (simp add: Number_of_bigint_def round_to_double_def Let_def)
  next
    case False
    with a have "nat (- i) < 2 ^ 24" by (simp add: nat_less_iff)
    from bl [OF this] False show ?thesis
      by (simp add: Number_of_bigint_def round_to_double_def Let_def)
  qed
qed

lemma toBigInt_examples:
  "toBigInt [0x00] = 0" "toBigInt [0x00, 0xED, 0x4E, 0x00] = 15552000"
  "toBigInt [0x00, 0xED, 0x4E, 0x01] = 15552001" "toBigInt [0xFF] = - 1"
  by (simp_all add: toBigInt_def)

lemma example_fields_valid:
  "validateRecipientAddressLength ''0abc'' = Inr ()"
  "validateRecipientAddress stub_externals ''0abc'' = Inr ()"
  "validateMessageIdLength ''msg-1'' = Inr ()"
  "validatePayloadLength [] = Inr ()"
  "validatePayloadLength [0x30, 0x00] = Inr ()"
  by (simp_all add: validateRecipientAddressLength_def MAX_RECIPIENT_ADDRESS_LENGTH_def
      validateRecipientAddress_def stub_externals_def PRIVATE_ADDRESS_REGEX_def
      is_private_address_char_def validateMessageIdLength_def MAX_ID_LENGTH_def
      validatePayloadLength_def MAX_PAYLOAD_LENGTH_def)

text \<open>
  Claim C4. RAMF serialization and deserialization accept a TTL of exactly 0 and of exactly
  15552000 and raise a syntax error for every TTL below 0 or above 15552000.
  \<^item> \<open>validateTtl\<close>, which both call, accepts 0 and 15552000 and raises
    \<open>RAMFSyntaxError\<close> for every integer below 0 or above 15552000.
  \<^item> \<open>serialize\<close> raises \<open>RAMFSyntaxError\<close> for every message with such a TTL (the
    two checks that precede the TTL check raise the same class), and with a TTL of 0 or
    15552000 it returns the format signature followed by the signature whenever the other
    three checks pass and signing succeeds.
  \<^item> \<open>deserialize\<close>, once the field set is decoded with such a TTL, always fails; it
    fails with \<open>RAMFSyntaxError\<close> when the address and id checks, which come first,
    pass. With a TTL of 0 or 15552000 and the other checks passing it returns the message.
\<close>

theorem ramf_ttl_bounds:
  "validateTtl (Finite 0) = Inr ()
   \<and> validateTtl (Finite 15552000) = Inr ()
   \<and> (t < 0 \<or> 15552000 < t \<longrightarrow> (\<exists>msg. validateTtl (Finite t) = Inl (RAMFSyntaxError msg)))
   \<and> (t < 0 \<or> 15552000 < t \<longrightarrow>
        (\<exists>msg. serialize ext (m\<lparr>ttl := Finite t\<rparr>) ty ver key opts = Inl (RAMFSyntaxError msg)))
   \<and> ((t = 0 \<or> t = 15552000)
        \<and> validateRecipientAddressLength (recipientAddress m) = Inr ()
        \<and> validateMessageIdLength (id' m) = Inr ()
        \<and> validatePayloadLength (payloadSerialized m) = Inr ()
        \<and> cms_sign ext
             (fieldSet_toBER ext (recipientAddress m) (id' m) (creationDate m) (Finite t)
                (payloadSerialized m))
             key (senderCertificate m) (senderCaCertificateChain m) opts = Inr sig
        \<longrightarrow> serialize ext (m\<lparr>ttl := Finite t\<rparr>) ty ver key opts
              = Inr (generateFormatSignature ty ver @ sig))
   \<and> (parseSerialization ext s ty ver = Inr (v, f) \<and> field_ttl f = Finite t
        \<and> (t < 0 \<or> 15552000 < t)
        \<longrightarrow> (\<exists>e. deserialize ext s ty ver = Inl e))
   \<and> (parseSerialization ext s ty ver = Inr (v, f) \<and> field_ttl f = Finite t
        \<and> validateRecipientAddressLength (field_recipientAddress f) = Inr ()
        \<and> validateRecipientAddress ext (field_recipientAddress f) = Inr ()
        \<and> validateMessageIdLength (field_id f) = Inr ()
        \<and> (t < 0 \<or> 15552000 < t)
        \<longrightarrow> (\<exists>msg. deserialize ext s ty ver = Inl (RAMFSyntaxError msg)))
   \<and> (parseSerialization ext s ty ver = Inr (v, f) \<and> field_ttl f = Finite t
        \<and> validateRecipientAddressLength (field_recipientAddress f) = Inr ()
        \<and> validateRecipientAddress ext (field_recipientAddress f) = Inr ()
        \<and> validateMessageIdLength (field_id f) = Inr ()
        \<and> validatePayloadLength (field_payload f) = Inr ()
        \<and> (t = 0 \<or> t = 15552000)
        \<longrightarrow> deserialize ext s ty ver = Inr (messageFromFields v f))"
proof (intro conjI impI)
  show "validateTtl (Finite 0) = Inr ()" by (simp add: validateTtl_ok)
  show "validateTtl (Finite 15552000) = Inr ()" by (simp add: validateTtl_ok)
next
  assume "t < 0 \<or> 15552000 < t"
  then show "\<exists>msg. validateTtl (Finite t) = Inl (RAMFSyntaxError msg)"
    by (rule validateTtl_error)
next
  assume "t < 0 \<or> 15552000 < t"
  then show "\<exists>msg. serialize ext (m\<lparr>ttl := Finite t\<rparr>) ty ver key opts = Inl (RAMFSyntaxError msg)"
    by (rule serialize_ttl_error)
next
  assume a: "(t = 0 \<or> t = 15552000)
        \<and> validateRecipientAddressLength (recipientAddress m) = Inr ()
        \<and> validateMessageIdLength (id' m) = Inr ()
        \<and> validatePayloadLength (payloadSerialized m) = Inr ()
        \<and> cms_sign ext
             (fieldSet_toBER ext (recipientAddress m) (id' m) (creationDate m) (Finite t)
                (payloadSerialized m))
             key (senderCertificate m) (senderCaCertificateChain m) opts = Inr sig"
  then have "0 \<le> t" "t \<le> 15552000" by auto
  with a show "serialize ext (m\<lparr>ttl := Finite t\<rparr>) ty ver key opts
              = Inr (generateFormatSignature ty ver @ sig)"
    by (intro serialize_ttl_ok) simp_all
next
  assume "parseSerialization ext s ty ver = Inr (v, f) \<and> field_ttl f = Finite t
        \<and> (t < 0 \<or> 15552000 < t)"
  then show "\<exists>e. deserialize ext s ty ver = Inl e"
    using deserialize_ttl_fails by blast
next
  assume "parseSerialization ext s ty ver = Inr (v, f) \<and> field_ttl f = Finite t
        \<and> validateRecipientAddressLength (field_recipientAddress f) = Inr ()
        \<and> validateRecipientAddress ext (field_recipientAddress f) = Inr ()
        \<and> validateMessageIdLength (field_id f) = Inr ()
        \<and> (t < 0 \<or> 15552000 < t)"
  then show "\<exists>msg. deserialize ext s ty ver = Inl (RAMFSyntaxError msg)"
    using deserialize_ttl_error by blast
next
  assume a: "parseSerialization ext s ty ver = Inr (v, f) \<and> field_ttl f = Finite t
        \<and> validateRecipientAddressLength (field_recipientAddress f) = Inr ()
        \<and> validateRecipientAddress ext (field_recipientAddress f) = Inr ()
        \<and> validateMessageIdLength (field_id f) = Inr ()
        \<and> validatePayloadLength (field_payload f) = Inr ()
        \<and> (t = 0 \<or> t = 15552000)"
  then have "0 \<le> t" "t \<le> 15552000" by auto
  with a show "deserialize ext s ty ver = Inr (messageFromFields v f)"
    by (intro deserialize_ttl_ok [where t = t]) simp_all
qed

theorem ramf_ttl_bounds_witness:
  "(\<exists>msg. validateTtl (Finite (- 1)) = Inl (RAMFSyntaxError msg))
   \<and> (\<exists>msg. serialize stub_externals (example_message\<lparr>ttl := Finite 15552001\<rparr>) 0x50 0 [1] None
              = Inl (RAMFSyntaxError msg))
   \<and> serialize stub_externals (example_message\<lparr>ttl := Finite 15552000\<rparr>) 0x50 0 [1] None
        = Inr (generateFormatSignature 0x50 0 @ [0x30, 0x00])
   \<and> (\<exists>msg. deserialize stub_externals (example_serialization [0xFF]) 0x50 0
              = Inl (RAMFSyntaxError msg))
   \<and> (\<exists>msg. deserialize stub_externals (example_serialization [0x00, 0xED, 0x4E, 0x01]) 0x50 0
              = Inl (RAMFSyntaxError msg))
   \<and> (\<exists>m. deserialize stub_externals (example_serialization [0x00]) 0x50 0 = Inr m
            \<and> ttl m = Finite 0)
   \<and> (\<exists>m. deserialize stub_externals (example_serialization [0x00, 0xED, 0x4E, 0x00]) 0x50 0 = Inr m
            \<and> ttl m = Finite 15552000)"
proof -
  let ?v = "\<lambda>bs. \<lparr>plaintext = 0x30 # bs, signerCertificate = example_certificate,
              attachedCertificates = []\<rparr>"
  let ?f = "\<lambda>bs. \<lparr>field_recipientAddress = ''0abc'', field_id = ''msg-1'', field_date = 0,
             field_ttl = Number_of_bigint (toBigInt bs), field_payload = []\<rparr>"
  have p: "parseSerialization stub_externals (example_serialization bs) 0x50 0 = Inr (?v bs, ?f bs)"
    if "length bs \<le> 100" for bs
    using parseSerialization_example [OF that] .
  have n: "Number_of_bigint (toBigInt [0x00]) = Finite 0"
    "Number_of_bigint (toBigInt [0x00, 0xED, 0x4E, 0x00]) = Finite 15552000"
    "Number_of_bigint (toBigInt [0x00, 0xED, 0x4E, 0x01]) = Finite 15552001"
    "Number_of_bigint (toBigInt [0xFF]) = Finite (- 1)"
    by (simp_all add: toBigInt_examples Number_of_bigint_small)
  have 1: "\<exists>msg. validateTtl (Finite (- 1)) = Inl (RAMFSyntaxError msg)"
    using ramf_ttl_bounds [where t = "- 1"] by simp
  have 2: "\<exists>msg. serialize stub_externals (example_message\<lparr>ttl := Finite 15552001\<rparr>) 0x50 0 [1] None
              = Inl (RAMFSyntaxError msg)"
    using ramf_ttl_bounds [where t = 15552001 and ext = stub_externals and m = example_message
        and ty = "0x50" and ver = 0 and key = "[1]" and opts = None]
    by simp
  have 3: "serialize stub_externals (example_message\<lparr>ttl := Finite 15552000\<rparr>) 0x50 0 [1] None
        = Inr (generateFormatSignature 0x50 0 @ [0x30, 0x00])"
    using ramf_ttl_bounds [where t = 15552000 and ext = stub_externals and m = example_message
        and ty = "0x50" and ver = 0 and key = "[1]" and opts = None and sig = "[0x30, 0x00]"]
      example_fields_valid
    by (simp add: example_message_def stub_externals_def)
  have 4: "\<exists>msg. deserialize stub_externals (example_serialization [0xFF]) 0x50 0
              = Inl (RAMFSyntaxError msg)"
    using ramf_ttl_bounds [where t = "- 1" and ext = stub_externals and ty = "0x50" and ver = 0
        and s = "example_serialization [0xFF]" and v = "?v [0xFF]" and f = "?f [0xFF]"]
      example_fields_valid p [of "[0xFF]"] n
    by simp
  have 5: "\<exists>msg. deserialize stub_externals (example_serialization [0x00, 0xED, 0x4E, 0x01]) 0x50 0
              = Inl (RAMFSyntaxError msg)"
    using ramf_ttl_bounds [where t = 15552001 and ext = stub_externals and ty = "0x50" and ver = 0
        and s = "example_serialization [0x00, 0xED, 0x4E, 0x01]"
        and v = "?v [0x00, 0xED, 0x4E, 0x01]" and f = "?f [0x00, 0xED, 0x4E, 0x01]"]
      example_fields_valid p [of "[0x00, 0xED, 0x4E, 0x01]"] n
    by simp
  have 6: "\<exists>m. deserialize stub_externals (example_serialization [0x00]) 0x50 0 = Inr m
            \<and> ttl m = Finite 0"
    using ramf_ttl_bounds [where t = 0 and ext = stub_externals and ty = "0x50" and ver = 0
        and s = "example_serialization [0x00]" and v = "?v [0x00]" and f = "?f [0x00]"]
      example_fields_valid p [of "[0x00]"] n
    by (simp add: messageFromFields_def new_RAMFMessage_def)
  have 7: "\<exists>m. deserialize stub_externals (example_serialization [0x00, 0xED, 0x4E, 0x00]) 0x50 0 = Inr m
            \<and> ttl m = Finite 15552000"
    using ramf_ttl_bounds [where t = 15552000 and ext = stub_externals and ty = "0x50" and ver = 0
        and s = "example_serialization [0x00, 0xED, 0x4E, 0x00]"
        and v = "?v [0x00, 0xED, 0x4E, 0x00]" and f = "?f [0x00, 0xED, 0x4E, 0x00]"]
      example_fields_valid p [of "[0x00, 0xED, 0x4E, 0x00]"] n
    by (simp add: messageFromFields_def new_RAMFMessage_def)
  from 1 2 3 4 5 6 7 show ?thesis by blast
qed

lemma length_generateFormatSignature: "length (generateFormatSignature ty ver) = 10"
  by (simp add: generateFormatSignature_def FORMAT_SIGNATURE_CONSTANT_def)

lemma serialize_Inr:
  assumes "serialize ext m ty ver key opts = Inr s"
  shows "\<exists>sig. cms_sign ext
                 (fieldSet_toBER ext (recipientAddress m) (id' m) (creationDate m) (ttl m)
                    (payloadSerialized m))
                 key (senderCertificate m) (senderCaCertificateChain m) opts = Inr sig
               \<and> s = generateFormatSignature ty ver @ sig"
  using assms by (auto simp: serialize_def Let_def split: sum.splits)

lemma serialize_ok:
  assumes "validateRecipientAddressLength (recipientAddress m) = Inr ()"
    and "validateMessageIdLength (id' m) = Inr ()"
    and "validateTtl (ttl m) = Inr ()"
    and "validatePayloadLength (payloadSerialized m) = Inr ()"
    and "cms_sign ext
           (fieldSet_toBER ext (recipientAddress m) (id' m) (creationDate m) (ttl m)
              (payloadSerialized m))
           key (senderCertificate m) (senderCaCertificateChain m) opts = Inr sig"
  shows "serialize ext m ty ver key opts = Inr (generateFormatSignature ty ver @ sig)"
  using assms by (simp add: serialize_def)

lemma deserialize_too_long:
  assumes "MAX_RAMF_MESSAGE_LENGTH < length s"
  shows "deserialize ext s ty ver
           = Inl (RAMFSyntaxError (''Message should not be longer than 9 MiB (got ''
                    @ nat_to_string 10 (length s) @ '' octets)''))"
  using assms by (simp add: deserialize_def validateMessageLength_def)

text \<open>
  Claim C2 as stated says that \<open>serialize\<close> fails when the composed serialization
  exceeds 9437184 octets. It does not: with a SignedData value of 9437184 octets (a long
  certificate chain attached) it returns 9437194 octets.
\<close>

theorem serialize_length_unchecked_counterexample:
  "serialize oversized_externals example_message 0x50 0 [1] None
     = Inr (generateFormatSignature 0x50 0 @ replicate 9437184 0)
   \<and> length (generateFormatSignature 0x50 0 @ replicate 9437184 (0 :: 8 word)) = 9437194
   \<and> \<not> (\<forall>s. serialize oversized_externals example_message 0x50 0 [1] None = Inr s
            \<longrightarrow> length s \<le> 9437184)"
proof -
  have 1: "serialize oversized_externals example_message 0x50 0 [1] None
     = Inr (generateFormatSignature 0x50 0 @ replicate 9437184 0)"
    by (rule serialize_ok)
      (simp_all add: example_message_def example_fields_valid validateTtl_ok
        oversized_externals_def stub_externals_def)
  have 2: "length (generateFormatSignature 0x50 0 @ replicate 9437184 (0 :: 8 word)) = 9437194"
    by (simp add: length_generateFormatSignature)
  have 3: "\<not> (\<forall>s. serialize oversized_externals example_message 0x50 0 [1] None = Inr s
            \<longrightarrow> length s \<le> 9437184)"
    unfolding 1 using 2 by simp
  from 1 2 3 show ?thesis by blast
qed

text \<open>
  Claim C2, amended. \<open>serialize\<close> checks the recipient address length, the id length,
  the TTL and the payload length only: whenever it returns, the result is the 10-octet
  format signature followed by the SignedData value, whatever its length, and it returns
  whenever those four checks pass and signing succeeds. The bound of 9437184 octets is
  enforced by \<open>deserialize\<close>, whose first step raises \<open>RAMFSyntaxError\<close> for every
  longer input.
\<close>

theorem message_length_checked_on_deserialize:
  "(serialize ext m ty ver key opts = Inr s \<longrightarrow>
      (\<exists>sig. cms_sign ext
                (fieldSet_toBER ext (recipientAddress m) (id' m) (creationDate m) (ttl m)
                   (payloadSerialized m))
                key (senderCertificate m) (senderCaCertificateChain m) opts = Inr sig
              \<and> s = generateFormatSignature ty ver @ sig \<and> length s = 10 + length sig))
   \<and> (validateRecipientAddressLength (recipientAddress m) = Inr ()
        \<and> validateMessageIdLength (id' m) = Inr ()
        \<and> validateTtl (ttl m) = Inr ()
        \<and> validatePayloadLength (payloadSerialized m) = Inr ()
        \<and> cms_sign ext
             (fieldSet_toBER ext (recipientAddress m) (id' m) (creationDate m) (ttl m)
                (payloadSerialized m))
             key (senderCertificate m) (senderCaCertificateChain m) opts = Inr sig
        \<longrightarrow> serialize ext m ty ver key opts = Inr (generateFormatSignature ty ver @ sig))
   \<and> (9437184 < length s' \<longrightarrow>
        deserialize ext s' ty' ver'
          = Inl (RAMFSyntaxError (''Message should not be longer than 9 MiB (got ''
                   @ nat_to_string 10 (length s') @ '' octets)'')))"
proof (intro conjI impI)
  assume "serialize ext m ty ver key opts = Inr s"
  from serialize_Inr [OF this]
  show "\<exists>sig. cms_sign ext
                (fieldSet_toBER ext (recipientAddress m) (id' m) (creationDate m) (ttl m)
                   (payloadSerialized m))
                key (senderCertificate m) (senderCaCertificateChain m) opts = Inr sig
              \<and> s = generateFormatSignature ty ver @ sig \<and> length s = 10 + length sig"
    by (auto simp: length_generateFormatSignature)
next
  assume "validateRecipientAddressLength (recipientAddress m) = Inr ()
        \<and> validateMessageIdLength (id' m) = Inr ()
        \<and> validateTtl (ttl m) = Inr ()
        \<and> validatePayloadLength (payloadSerialized m) = Inr ()
        \<and> cms_sign ext
             (fieldSet_toBER ext (recipientAddress m) (id' m) (creationDate m) (ttl m)
                (payloadSerialized m))
             key (senderCertificate m) (senderCaCertificateChain m) opts = Inr sig"
  then show "serialize ext m ty ver key opts = Inr (generateFormatSignature ty ver @ sig)"
    by (intro serialize_ok) simp_all
next
  assume "9437184 < length s'"
  then show "deserialize ext s' ty' ver'
          = Inl (RAMFSyntaxError (''Message should not be longer than 9 MiB (got ''
                   @ nat_to_string 10 (length s') @ '' octets)''))"
    by (intro deserialize_too_long) (simp add: MAX_RAMF_MESSAGE_LENGTH_def)
qed

theorem message_length_checked_on_deserialize_witness:
  "serialize oversized_externals example_message 0x50 0 [1] None
     = Inr (generateFormatSignature 0x50 0 @ replicate 9437184 0)
   \<and> deserialize oversized_externals (generateFormatSignature 0x50 0 @ replicate 9437184 0) 0x50 0
       = Inl (RAMFSyntaxError ''Message should not be longer than 9 MiB (got 9437194 octets)'')"
proof -
  let ?s = "generateFormatSignature 0x50 0 @ replicate 9437184 (0 :: 8 word)"
  note inst = message_length_checked_on_deserialize [where ext = oversized_externals
        and m = example_message and ty = "0x50" and ver = 0 and key = "[1]" and opts = None
        and sig = "replicate 9437184 0" and s = ?s and s' = ?s and ty' = "0x50" and ver' = 0]
  have a: "validateRecipientAddressLength (recipientAddress example_message) = Inr ()"
    "validateMessageIdLength (id' example_message) = Inr ()"
    "validateTtl (ttl example_message) = Inr ()"
    "validatePayloadLength (payloadSerialized example_message) = Inr ()"
    by (simp_all add: example_message_def example_fields_valid validateTtl_ok)
  have b: "cms_sign oversized_externals
             (fieldSet_toBER oversized_externals (recipientAddress example_message)
                (id' example_message) (creationDate example_message) (ttl example_message)
                (payloadSerialized example_message))
             [1] (senderCertificate example_message) (senderCaCertificateChain example_message)
             None = Inr (replicate 9437184 0)"
    by (simp add: oversized_externals_def)
  have c: "length ?s = 9437194" by (simp add: length_generateFormatSignature)
  have d: "nat_to_string 10 9437194 = ''9437194''"
    by (simp add: nat_to_string.simps digit_char_def)
  have 1: "serialize oversized_externals example_message 0x50 0 [1] None = Inr ?s"
    using inst a b by blast
  have "(9437184 :: nat) < length ?s" unfolding c by simp
  with inst have "deserialize oversized_externals ?s 0x50 0
          = Inl (RAMFSyntaxError (''Message should not be longer than 9 MiB (got ''
                   @ nat_to_string 10 (length ?s) @ '' octets)''))"
    by blast
  then have 2: "deserialize oversized_externals ?s 0x50 0
       = Inl (RAMFSyntaxError ''Message should not be longer than 9 MiB (got 9437194 octets)'')"
    unfolding c d by simp
  from 1 2 show ?thesis by blast
qed









lemma deserialize_address_error:
  assumes "parseSerialization ext s ty ver = Inr (v, f)"
    and "validateRecipientAddressLength (field_recipientAddress f) = Inr ()"
    and "validateRecipientAddress ext (field_recipientAddress f) = Inl e"
  shows "deserialize ext s ty ver = Inl e"
  using assms by (simp add: deserialize_after_parsing)




lemma parseSerialization_stub:
  "parseSerialization stub_externals
     ([0x52, 0x65, 0x6c, 0x61, 0x79, 0x6e, 0x65, 0x74, 0x50, 0x00] @ a # bs) 0x50 0
     = Inr (\<lparr>plaintext = a # bs, signerCertificate = example_certificate,
              attachedCertificates = []\<rparr>,
            \<lparr>field_recipientAddress = textDecoder_decode stub_externals [a],
             field_id = ''msg-1'', field_date = 0,
             field_ttl = Number_of_bigint (toBigInt bs), field_payload = []\<rparr>)"
  if "length bs \<le> 100"
  using that
  by (simp add: parseSerialization_def validateMessageLength_def
      MAX_RAMF_MESSAGE_LENGTH_def parseMessageFormatSignature_def FORMAT_SIGNATURE_CONSTANT_def
      validateFileFormatSignature_def verifySignature_def stub_externals_def
      parseMessageFields_def getIntegerFromPrimitiveBlock_def getDateFromPrimitiveBlock_def)

lemma stub_decode:
  "textDecoder_decode stub_externals [0x41] = ''ABCDEF''"
  "textDecoder_decode stub_externals [0x30] = ''0abc''"
  "textDecoder_decode stub_externals [] = ''msg-1''"
  by (simp_all add: stub_externals_def)

lemma ABCDEF_invalid:
  "\<not> new_URL stub_externals ''ABCDEF''" "\<not> PRIVATE_ADDRESS_REGEX ''ABCDEF''"
  "validateRecipientAddressLength ''ABCDEF'' = Inr ()"
  by (simp_all add: stub_externals_def PRIVATE_ADDRESS_REGEX_def is_private_address_char_def
      validateRecipientAddressLength_def MAX_RECIPIENT_ADDRESS_LENGTH_def)

lemma validateRecipientAddress_invalid:
  assumes "\<not> new_URL ext a" "\<not> PRIVATE_ADDRESS_REGEX a"
  shows "validateRecipientAddress ext a
           = Inl (RAMFValidationError
                    (''Recipient address should be a valid node address (got: ''
                     @ [CHR 0x22] @ a @ [CHR 0x22] @ '')''))"
  using assms by (simp add: validateRecipientAddress_def)


lemma number_to_string_examples:
  "number_to_string (Finite 9007199254740992) = ''9007199254740992''"
  "number_to_string (Finite 1152921504606846976) = ''1152921504606847000''"
  "number_to_string (Finite 1000000000000000000000) = ''1e+21''"
  by (simp_all add: number_to_string.simps double_to_string_def shortest_digits_def
      shortest_candidates_def candidate_distance_def round_to_double_def bit_length.simps
      nat_to_string.simps digit_char_def Let_def upt_rec)



text \<open>
  Claim C9. \<open>serialize\<close> validates the length of the recipient address, not its syntax.
  An address of more than 1024 characters is rejected by \<open>serialize\<close> with
  \<open>RAMFSyntaxError\<close>, whatever its syntax. For an address of at most 1024 characters that
  neither parses as a URL nor matches \<open>^[a-f0-9]+$\<close>, \<open>serialize\<close> returns the
  serialization whenever the id, TTL and payload checks pass and signing succeeds, while
  \<open>deserialize\<close>, once the field set is decoded with that address, raises
  \<open>RAMFValidationError\<close>. The witness is the address \<open>ABCDEF\<close> (uppercase hexadecimal
  digits), and 1025 times the letter \<open>a\<close> for the length check.
\<close>

theorem recipient_address_syntax_checked_on_deserialize_only:
  assumes "\<not> new_URL ext a" "\<not> PRIVATE_ADDRESS_REGEX a" "length a \<le> 1024"
  shows "(validateMessageIdLength (id' m) = Inr ()
            \<and> validateTtl (ttl m) = Inr ()
            \<and> validatePayloadLength (payloadSerialized m) = Inr ()
            \<and> cms_sign ext
                 (fieldSet_toBER ext a (id' m) (creationDate m) (ttl m) (payloadSerialized m))
                 key (senderCertificate m) (senderCaCertificateChain m) opts = Inr sig
          \<longrightarrow> serialize ext (m\<lparr>recipientAddress := a\<rparr>) ty ver key opts
                = Inr (generateFormatSignature ty ver @ sig))
       \<and> (parseSerialization ext s ty' ver' = Inr (v, f) \<and> field_recipientAddress f = a
          \<longrightarrow> deserialize ext s ty' ver'
                = Inl (RAMFValidationError
                         (''Recipient address should be a valid node address (got: ''
                          @ [CHR 0x22] @ a @ [CHR 0x22] @ '')'')))
       \<and> (1024 < length long
          \<longrightarrow> serialize ext (m\<lparr>recipientAddress := long\<rparr>) ty ver key opts
                = Inl (RAMFSyntaxError
                         (''Recipient address should not span more than 1024 characters (got ''
                          @ nat_to_string 10 (length long) @ '')'')))"
proof (intro conjI impI)
  from assms(3) have len: "validateRecipientAddressLength a = Inr ()"
    by (simp add: validateRecipientAddressLength_def MAX_RECIPIENT_ADDRESS_LENGTH_def)
  {
    assume "validateMessageIdLength (id' m) = Inr ()
            \<and> validateTtl (ttl m) = Inr ()
            \<and> validatePayloadLength (payloadSerialized m) = Inr ()
            \<and> cms_sign ext
                 (fieldSet_toBER ext a (id' m) (creationDate m) (ttl m) (payloadSerialized m))
                 key (senderCertificate m) (senderCaCertificateChain m) opts = Inr sig"
    with len show "serialize ext (m\<lparr>recipientAddress := a\<rparr>) ty ver key opts
                = Inr (generateFormatSignature ty ver @ sig)"
      by (intro serialize_ok) simp_all
  }
  {
    assume "parseSerialization ext s ty' ver' = Inr (v, f) \<and> field_recipientAddress f = a"
    with len show "deserialize ext s ty' ver'
                = Inl (RAMFValidationError
                         (''Recipient address should be a valid node address (got: ''
                          @ [CHR 0x22] @ a @ [CHR 0x22] @ '')''))"
      using deserialize_address_error [of ext s ty' ver' v f]
        validateRecipientAddress_invalid [OF assms(1,2)]
      by simp
  }
  {
    assume "1024 < length long"
    then show "serialize ext (m\<lparr>recipientAddress := long\<rparr>) ty ver key opts
                = Inl (RAMFSyntaxError
                         (''Recipient address should not span more than 1024 characters (got ''
                          @ nat_to_string 10 (length long) @ '')''))"
      by (simp add: serialize_def validateRecipientAddressLength_def
          MAX_RECIPIENT_ADDRESS_LENGTH_def nat_to_string.simps digit_char_def)
  }
qed

theorem recipient_address_syntax_checked_on_deserialize_only_witness:
  "\<not> new_URL stub_externals ''ABCDEF'' \<and> \<not> PRIVATE_ADDRESS_REGEX ''ABCDEF''
   \<and> serialize stub_externals (example_message\<lparr>recipientAddress := ''ABCDEF''\<rparr>) 0x50 0 [1] None
       = Inr (generateFormatSignature 0x50 0 @ [0x30, 0x00])
   \<and> deserialize stub_externals
         [0x52, 0x65, 0x6c, 0x61, 0x79, 0x6e, 0x65, 0x74, 0x50, 0x00, 0x41, 0x00] 0x50 0
       = Inl (RAMFValidationError
                (''Recipient address should be a valid node address (got: ''
                 @ [CHR 0x22] @ ''ABCDEF'' @ [CHR 0x22] @ '')''))
   \<and> serialize stub_externals
         (example_message\<lparr>recipientAddress := replicate 1025 (CHR ''a'')\<rparr>) 0x50 0 [1] None
       = Inl (RAMFSyntaxError
                ''Recipient address should not span more than 1024 characters (got 1025)'')"
proof -
  let ?v = "\<lparr>plaintext = [0x41, 0x00],
              signerCertificate = example_certificate, attachedCertificates = []\<rparr>"
  let ?f = "\<lparr>field_recipientAddress = ''ABCDEF'', field_id = ''msg-1'', field_date = 0,
              field_ttl = Finite 0, field_payload = []\<rparr>"
  let ?s = "[0x52, 0x65, 0x6c, 0x61, 0x79, 0x6e, 0x65, 0x74, 0x50, 0x00, 0x41, 0x00] :: octets"
  have len: "length ''ABCDEF'' \<le> 1024" by simp
  note inst = recipient_address_syntax_checked_on_deserialize_only
      [OF ABCDEF_invalid(1,2) len, where m = example_message and ty = "0x50" and ver = 0
        and key = "[1]" and opts = None and sig = "[0x30, 0x00]" and s = ?s and ty' = "0x50"
        and ver' = 0 and v = ?v and f = ?f and long = "replicate 1025 (CHR ''a'')"]
  have p: "parseSerialization stub_externals ?s 0x50 0 = Inr (?v, ?f)"
    using parseSerialization_stub [where bs = "[0x00]" and a = "0x41"]
    by (simp add: stub_decode toBigInt_examples Number_of_bigint_small)
  have 1: "serialize stub_externals (example_message\<lparr>recipientAddress := ''ABCDEF''\<rparr>) 0x50 0 [1] None
       = Inr (generateFormatSignature 0x50 0 @ [0x30, 0x00])"
    using inst [THEN conjunct1] example_fields_valid
    by (simp add: example_message_def validateTtl_ok stub_externals_def)
  have 2: "deserialize stub_externals ?s 0x50 0
       = Inl (RAMFValidationError
                (''Recipient address should be a valid node address (got: ''
                 @ [CHR 0x22] @ ''ABCDEF'' @ [CHR 0x22] @ '')''))"
    using inst [THEN conjunct2, THEN conjunct1] p by simp
  have s: "nat_to_string 10 1025 = ''1025''"
    by (simp add: nat_to_string.simps digit_char_def)
  have l: "length (replicate 1025 (CHR ''a'')) = 1025" by simp
  have 3: "serialize stub_externals
         (example_message\<lparr>recipientAddress := replicate 1025 (CHR ''a'')\<rparr>) 0x50 0 [1] None
       = Inl (RAMFSyntaxError
                ''Recipient address should not span more than 1024 characters (got 1025)'')"
    using inst [THEN conjunct2, THEN conjunct2] by (simp only: l s) simp
  from ABCDEF_invalid(1,2) 1 2 3 show ?thesis by blast
qed

section \<open>Private key store: properties\<close>

lemma retrieveSessionKeyDataOrThrowError_cases:
  assumes "retrieveSessionKeyData store (toString_hex kid) = Inr r"
  shows "retrieveSessionKeyDataOrThrowError store kid pa =
           (case r of
              None \<Rightarrow> Inl (UnknownKeyError (''Key '' @ toString_hex kid @ '' does not exist''))
            | Some d \<Rightarrow>
                if privateAddress d \<noteq> pa
                then Inl (UnknownKeyError ''Key is owned by a different node'')
                else Inr d)"
  using assms by (simp add: retrieveSessionKeyDataOrThrowError_def Let_def split: option.splits)

lemma retrieveSessionKey_eq:
  assumes "retrieveSessionKeyData store (toString_hex kid) = Inr r"
  shows "retrieveSessionKey store kid pa peer =
           (case r of
              None \<Rightarrow> Inl (UnknownKeyError (''Key '' @ toString_hex kid @ '' does not exist''))
            | Some d \<Rightarrow>
                if privateAddress d \<noteq> pa
                then Inl (UnknownKeyError ''Key is owned by a different node'')
                else if truthy (peerPrivateAddress d) \<and> Some peer \<noteq> peerPrivateAddress d
                then Inl (UnknownKeyError
                            (''Session key '' @ toString_hex kid
                             @ '' is bound to another recipient (''
                             @ the (peerPrivateAddress d) @ '', not '' @ peer @ '')''))
                else deserializeStoredKey store (keySerialized d))"
  by (cases r)
    (simp_all add: retrieveSessionKey_def retrieveSessionKeyDataOrThrowError_cases [OF assms]
      Let_def)

lemma retrieveUnboundSessionKey_eq:
  assumes "retrieveSessionKeyData store (toString_hex kid) = Inr r"
  shows "retrieveUnboundSessionKey store kid pa =
           (case r of
              None \<Rightarrow> Inl (UnknownKeyError (''Key '' @ toString_hex kid @ '' does not exist''))
            | Some d \<Rightarrow>
                if privateAddress d \<noteq> pa
                then Inl (UnknownKeyError ''Key is owned by a different node'')
                else if truthy (peerPrivateAddress d)
                then Inl (UnknownKeyError (''Key '' @ toString_hex kid @ '' is bound''))
                else deserializeStoredKey store (keySerialized d))"
  by (cases r)
    (simp_all add: retrieveUnboundSessionKey_def
      retrieveSessionKeyDataOrThrowError_cases [OF assms])

text \<open>
  Claim C1. Let the lookup of the key id return (a record or none). \<open>retrieveSessionKey\<close>
  raises \<open>UnknownKeyError\<close> if there is no record, if the record's private address
  differs from the caller's, or if the record's peer address is set and differs from the
  given peer, then with a message naming the stored and the given address; otherwise it
  returns the stored key, deserialized. \<open>retrieveUnboundSessionKey\<close> raises
  \<open>UnknownKeyError\<close> whenever the record's peer address is set, so a key it returns
  comes from a record of the caller with no peer address set. A peer address is set when
  the field is present and not the empty string (the source tests its truthiness).
\<close>

theorem session_key_retrieval:
  assumes "retrieveSessionKeyData store (toString_hex kid) = Inr r"
  shows "(r = None \<longrightarrow>
            retrieveSessionKey store kid pa peer
              = Inl (UnknownKeyError (''Key '' @ toString_hex kid @ '' does not exist'')))
       \<and> (r = Some d \<and> privateAddress d \<noteq> pa \<longrightarrow>
            retrieveSessionKey store kid pa peer
              = Inl (UnknownKeyError ''Key is owned by a different node''))
       \<and> (r = Some d \<and> privateAddress d = pa \<and> peerPrivateAddress d = Some p \<and> p \<noteq> []
            \<and> p \<noteq> peer \<longrightarrow>
            retrieveSessionKey store kid pa peer
              = Inl (UnknownKeyError
                       (''Session key '' @ toString_hex kid
                        @ '' is bound to another recipient ('' @ p @ '', not '' @ peer @ '')'')))
       \<and> (r = Some d \<and> privateAddress d = pa
            \<and> (peerPrivateAddress d = None \<or> peerPrivateAddress d = Some []
                 \<or> peerPrivateAddress d = Some peer) \<longrightarrow>
            retrieveSessionKey store kid pa peer
              = deserializeStoredKey store (keySerialized d))
       \<and> (r = Some d \<and> peerPrivateAddress d = Some p \<and> p \<noteq> [] \<longrightarrow>
            (\<exists>msg. retrieveUnboundSessionKey store kid pa = Inl (UnknownKeyError msg)))
       \<and> (retrieveUnboundSessionKey store kid pa = Inr k \<longrightarrow>
            (\<exists>d'. r = Some d' \<and> privateAddress d' = pa \<and> \<not> truthy (peerPrivateAddress d')
                  \<and> derDeserializeECDHPrivateKey store (keySerialized d') ''P-256'' = Inr k))"
proof -
  note eq = retrieveSessionKey_eq [OF assms] retrieveUnboundSessionKey_eq [OF assms]
  have 1: "r = None \<longrightarrow>
            retrieveSessionKey store kid pa peer
              = Inl (UnknownKeyError (''Key '' @ toString_hex kid @ '' does not exist''))"
    by (simp add: eq)
  have 2: "r = Some d \<and> privateAddress d \<noteq> pa \<longrightarrow>
            retrieveSessionKey store kid pa peer
              = Inl (UnknownKeyError ''Key is owned by a different node'')"
    by (simp add: eq)
  have 3: "r = Some d \<and> privateAddress d = pa \<and> peerPrivateAddress d = Some p \<and> p \<noteq> []
            \<and> p \<noteq> peer \<longrightarrow>
            retrieveSessionKey store kid pa peer
              = Inl (UnknownKeyError
                       (''Session key '' @ toString_hex kid
                        @ '' is bound to another recipient ('' @ p @ '', not '' @ peer @ '')''))"
    by (auto simp add: eq truthy_def)
  have 4: "r = Some d \<and> privateAddress d = pa
            \<and> (peerPrivateAddress d = None \<or> peerPrivateAddress d = Some []
                 \<or> peerPrivateAddress d = Some peer) \<longrightarrow>
            retrieveSessionKey store kid pa peer
              = deserializeStoredKey store (keySerialized d)"
    by (auto simp add: eq truthy_def)
  have 5: "r = Some d \<and> peerPrivateAddress d = Some p \<and> p \<noteq> [] \<longrightarrow>
            (\<exists>msg. retrieveUnboundSessionKey store kid pa = Inl (UnknownKeyError msg))"
    by (simp add: eq truthy_def)
  have 6: "retrieveUnboundSessionKey store kid pa = Inr k \<longrightarrow>
            (\<exists>d'. r = Some d' \<and> privateAddress d' = pa \<and> \<not> truthy (peerPrivateAddress d')
                  \<and> derDeserializeECDHPrivateKey store (keySerialized d') ''P-256'' = Inr k)"
    by (cases r) (simp_all add: eq deserializeStoredKey_def split: if_splits sum.splits)
  from 1 2 3 4 5 6 show ?thesis by blast
qed

lemma hex_abcd: "toString_hex [0xAB, 0xCD] = ''abcd''" "toString_hex [0x01] = ''01''"
  by (simp_all add: toString_hex_def octet_to_hex_def digit_char_def)

theorem session_key_retrieval_witness:
  "retrieveSessionKey (mock_store []) [0xAB, 0xCD] ''0owner'' ''0peerp''
     = Inl (UnknownKeyError ''Key abcd does not exist'')
   \<and> retrieveSessionKey (mock_store [(''abcd'', example_bound_key)]) [0xAB, 0xCD] ''0other''
         ''0peerp''
       = Inl (UnknownKeyError ''Key is owned by a different node'')
   \<and> retrieveSessionKey (mock_store [(''abcd'', example_bound_key)]) [0xAB, 0xCD] ''0owner''
         ''0peerq''
       = Inl (UnknownKeyError
                ''Session key abcd is bound to another recipient (0peerp, not 0peerq)'')
   \<and> retrieveSessionKey (mock_store [(''abcd'', example_bound_key)]) [0xAB, 0xCD] ''0owner''
         ''0peerp''
       = Inr [0x30, 0x01]
   \<and> retrieveSessionKey (mock_store [(''abcd'', example_unbound_key)]) [0xAB, 0xCD] ''0owner''
         ''0peerq''
       = Inr [0x30, 0x02]
   \<and> (\<exists>msg. retrieveUnboundSessionKey (mock_store [(''abcd'', example_bound_key)])
               [0xAB, 0xCD] ''0owner''
             = Inl (UnknownKeyError msg))
   \<and> retrieveUnboundSessionKey (mock_store [(''abcd'', example_unbound_key)]) [0xAB, 0xCD]
         ''0owner''
       = Inr [0x30, 0x02]
   \<and> \<not> truthy (peerPrivateAddress example_unbound_key)"
proof -
  let ?k = "[0xAB, 0xCD] :: octets"
  have l0: "retrieveSessionKeyData (mock_store []) (toString_hex ?k) = Inr None"
    by (simp add: mock_store_def)
  have lb: "retrieveSessionKeyData (mock_store [(''abcd'', example_bound_key)]) (toString_hex ?k)
              = Inr (Some example_bound_key)"
    by (simp add: mock_store_def hex_abcd)
  have lu: "retrieveSessionKeyData (mock_store [(''abcd'', example_unbound_key)])
              (toString_hex ?k) = Inr (Some example_unbound_key)"
    by (simp add: mock_store_def hex_abcd)
  have 1: "retrieveSessionKey (mock_store []) ?k ''0owner'' ''0peerp''
     = Inl (UnknownKeyError ''Key abcd does not exist'')"
    using session_key_retrieval [OF l0, where pa = "''0owner''" and peer = "''0peerp''"
        and d = example_bound_key and p = "''0peerp''" and k = "[]"]
    by (simp add: hex_abcd)
  have 2: "retrieveSessionKey (mock_store [(''abcd'', example_bound_key)]) ?k ''0other''
         ''0peerp''
       = Inl (UnknownKeyError ''Key is owned by a different node'')"
    using session_key_retrieval [OF lb, where pa = "''0other''" and peer = "''0peerp''"
        and d = example_bound_key and p = "''0peerp''" and k = "[]"]
    by (simp add: example_bound_key_def)
  have 3: "retrieveSessionKey (mock_store [(''abcd'', example_bound_key)]) ?k ''0owner''
         ''0peerq''
       = Inl (UnknownKeyError
                ''Session key abcd is bound to another recipient (0peerp, not 0peerq)'')"
    using session_key_retrieval [OF lb, where pa = "''0owner''" and peer = "''0peerq''"
        and d = example_bound_key and p = "''0peerp''" and k = "[]"]
    by (simp add: example_bound_key_def hex_abcd)
  have 4: "retrieveSessionKey (mock_store [(''abcd'', example_bound_key)]) ?k ''0owner''
         ''0peerp''
       = Inr [0x30, 0x01]"
    using session_key_retrieval [OF lb, where pa = "''0owner''" and peer = "''0peerp''"
        and d = example_bound_key and p = "''0peerp''" and k = "[]"]
    by (simp add: example_bound_key_def deserializeStoredKey_def mock_store_def)
  have 5: "retrieveSessionKey (mock_store [(''abcd'', example_unbound_key)]) ?k ''0owner''
         ''0peerq''
       = Inr [0x30, 0x02]"
    using session_key_retrieval [OF lu, where pa = "''0owner''" and peer = "''0peerq''"
        and d = example_unbound_key and p = "''0peerp''" and k = "[]"]
    by (simp add: example_unbound_key_def deserializeStoredKey_def mock_store_def)
  have 6: "\<exists>msg. retrieveUnboundSessionKey (mock_store [(''abcd'', example_bound_key)])
               ?k ''0owner''
             = Inl (UnknownKeyError msg)"
    using session_key_retrieval [OF lb, where pa = "''0owner''" and peer = "''0peerq''"
        and d = example_bound_key and p = "''0peerp''" and k = "[]"]
    by (simp add: example_bound_key_def)
  have 7: "retrieveUnboundSessionKey (mock_store [(''abcd'', example_unbound_key)]) ?k
         ''0owner''
       = Inr [0x30, 0x02]"
    unfolding retrieveUnboundSessionKey_eq [OF lu]
    by (simp add: example_unbound_key_def truthy_def deserializeStoredKey_def mock_store_def)
  have 8: "\<not> truthy (peerPrivateAddress example_unbound_key)"
    using session_key_retrieval [OF lu, where pa = "''0owner''" and peer = "''0peerq''"
        and d = example_unbound_key and p = "''0peerp''" and k = "[0x30, 0x02]"] 7
    by auto
  from 1 2 3 4 5 6 7 8 show ?thesis by blast
qed

section \<open>Certificates: properties\<close>

lemma be_uint_nonneg: "0 \<le> acc \<Longrightarrow> 0 \<le> be_uint acc bs"
  by (induction bs arbitrary: acc) simp_all

lemma be_uint_zero_iff:
  "0 \<le> acc \<Longrightarrow> be_uint acc bs = 0 \<longleftrightarrow> acc = 0 \<and> (\<forall>b \<in> set bs. b = 0)"
proof (induction bs arbitrary: acc)
  case Nil
  then show ?case by simp
next
  case (Cons b bs)
  have u: "0 \<le> uint b" by simp
  from Cons.prems u have nn: "0 \<le> acc * 256 + uint b" by simp
  have "acc * 256 + uint b = 0 \<longleftrightarrow> acc = 0 \<and> b = 0"
  proof
    assume z: "acc * 256 + uint b = 0"
    with Cons.prems u have "acc = 0" by linarith
    with z show "acc = 0 \<and> b = 0" by (simp add: uint_0_iff)
  next
    assume "acc = 0 \<and> b = 0"
    then show "acc * 256 + uint b = 0" by simp
  qed
  with Cons.IH [OF nn] show ?case by auto
qed

lemma msb_octet: "bit (b :: 8 word) 7 \<longleftrightarrow> 127 < unat b"
proof -
  have lt: "unat b < 256" using unsigned_less [of b, where 'a = nat] by simp
  have "bit b 7 \<longleftrightarrow> bit (unat b) 7" by (simp add: bit_unsigned_iff)
  also have "\<dots> \<longleftrightarrow> odd (unat b div 128)" by (simp add: bit_iff_odd)
  also have "\<dots> \<longleftrightarrow> 127 < unat b"
  proof (cases "unat b < 128")
    case True
    then show ?thesis by simp
  next
    case False
    with lt have "unat b div 128 = 1" by arith
    with False show ?thesis by simp
  qed
  finally show ?thesis .
qed

text \<open>
  The part of claim C8 that holds for every random value: a zero octet is prepended
  exactly when the most significant bit of the first octet is set, and the value of the
  resulting INTEGER is the random value read as an unsigned number, hence not negative,
  and positive exactly when some octet of the random value is not zero.
\<close>

lemma generatePositiveASN1Integer_prepends:
  "generatePositiveASN1Integer (b # bs) = (if bit b 7 then 0 # b # bs else b # bs)"
  by (simp add: generatePositiveASN1Integer_def msb_octet)

lemma generatePositiveASN1Integer_value:
  "toBigInt (generatePositiveASN1Integer r) = be_uint 0 r"
  by (cases r) (simp_all add: generatePositiveASN1Integer_def toBigInt_def)

lemma generatePositiveASN1Integer_nonneg: "0 \<le> toBigInt (generatePositiveASN1Integer r)"
  by (simp add: generatePositiveASN1Integer_value be_uint_nonneg)

lemma generatePositiveASN1Integer_positive_iff:
  "0 < toBigInt (generatePositiveASN1Integer r) \<longleftrightarrow> (\<exists>b \<in> set r. b \<noteq> 0)"
proof -
  have "toBigInt (generatePositiveASN1Integer r) = 0 \<longleftrightarrow> (\<forall>b \<in> set r. b = 0)"
    by (simp add: generatePositiveASN1Integer_value be_uint_zero_iff)
  with generatePositiveASN1Integer_nonneg [of r] show ?thesis by fastforce
qed

text \<open>
  Claim C8 says that the serial number is strictly greater than zero for every 64-bit
  random value. For the random value of eight zero octets no octet is prepended and the
  INTEGER is zero.
\<close>

theorem serial_number_of_zero_random_value:
  "generatePositiveASN1Integer [0, 0, 0, 0, 0, 0, 0, 0] = [0, 0, 0, 0, 0, 0, 0, 0]
   \<and> toBigInt (generatePositiveASN1Integer [0, 0, 0, 0, 0, 0, 0, 0]) = 0
   \<and> \<not> 0 < toBigInt (generatePositiveASN1Integer [0, 0, 0, 0, 0, 0, 0, 0])"
  by (simp add: generatePositiveASN1Integer_def toBigInt_def)

lemma Certificate_validate_eq:
  "Certificate_validate now (new_Certificate c) =
     (if version c \<noteq> 2
      then Inl (CertificateError (''Only X.509 v3 certificates are supported (got v''
                  @ int_to_string (version c + 1) @ '')''))
      else if now < notBefore c then Inl (CertificateError ''Certificate is not yet valid'')
      else if notAfter c < now then Inl (CertificateError ''Certificate already expired'')
      else Inr ())"
  by (simp add: Certificate_validate_def new_Certificate_def startDate_def expiryDate_def Let_def)

text \<open>
  Claim C10. \<open>Certificate.deserialize\<close> validates nothing: for every DER input that
  parses as an X.509 certificate it returns the certificate, whatever its version and
  validity period. A version other than 3, a start date in the future and an expiry date
  in the past raise \<open>CertificateError\<close> in \<open>validate\<close>, which \<open>deserialize\<close> does not
  call; \<open>validate\<close> accepts the certificate otherwise.
\<close>

theorem certificate_deserialize_validates_nothing:
  assumes "parse_Certificate ext der = Inr c"
  shows "Certificate_deserialize ext der = Inr (new_Certificate c)
       \<and> (version c + 1 \<noteq> 3 \<longrightarrow>
            Certificate_validate now (new_Certificate c)
              = Inl (CertificateError (''Only X.509 v3 certificates are supported (got v''
                       @ int_to_string (version c + 1) @ '')'')))
       \<and> (version c + 1 = 3 \<and> now < notBefore c \<longrightarrow>
            Certificate_validate now (new_Certificate c)
              = Inl (CertificateError ''Certificate is not yet valid''))
       \<and> (version c + 1 = 3 \<and> notBefore c \<le> now \<and> notAfter c < now \<longrightarrow>
            Certificate_validate now (new_Certificate c)
              = Inl (CertificateError ''Certificate already expired''))
       \<and> (version c + 1 = 3 \<and> notBefore c \<le> now \<and> now \<le> notAfter c \<longrightarrow>
            Certificate_validate now (new_Certificate c) = Inr ())"
  using assms by (simp add: Certificate_deserialize_def Certificate_validate_eq)

theorem certificate_deserialize_validates_nothing_witness:
  "Certificate_deserialize (parsing_externals example_expired_v1) [0x30]
     = Inr (new_Certificate example_expired_v1)
   \<and> Certificate_validate 5000 (new_Certificate example_expired_v1)
       = Inl (CertificateError ''Only X.509 v3 certificates are supported (got v1)'')
   \<and> Certificate_deserialize (parsing_externals (example_expired_v1\<lparr>version := 2\<rparr>)) [0x30]
       = Inr (new_Certificate (example_expired_v1\<lparr>version := 2\<rparr>))
   \<and> Certificate_validate 5000 (new_Certificate (example_expired_v1\<lparr>version := 2\<rparr>))
       = Inl (CertificateError ''Certificate already expired'')
   \<and> Certificate_validate 500 (new_Certificate (example_expired_v1\<lparr>version := 2\<rparr>))
       = Inl (CertificateError ''Certificate is not yet valid'')
   \<and> Certificate_validate 1500 (new_Certificate (example_expired_v1\<lparr>version := 2\<rparr>)) = Inr ()"
proof -
  let ?c1 = example_expired_v1
  let ?c3 = "example_expired_v1\<lparr>version := 2\<rparr>"
  have p1: "parse_Certificate (parsing_externals ?c1) [0x30] = Inr ?c1"
    and p3: "parse_Certificate (parsing_externals ?c3) [0x30] = Inr ?c3"
    by (simp_all add: parsing_externals_def)
  have s: "int_to_string 1 = ''1''"
    by (simp add: int_to_string_def nat_to_string.simps digit_char_def)
  have f: "version ?c1 = 0" "version ?c3 = 2" "notBefore ?c3 = 1000" "notAfter ?c3 = 2000"
    by (simp_all add: example_expired_v1_def)
  show ?thesis
    using certificate_deserialize_validates_nothing [OF p1, of 5000]
      certificate_deserialize_validates_nothing [OF p3, of 5000]
      certificate_deserialize_validates_nothing [OF p3, of 500]
      certificate_deserialize_validates_nothing [OF p3, of 1500]
    unfolding f by (simp add: s)
qed











section \<open>CMS EnvelopedData: properties\<close>

text \<open>
  The parts of claim C5 that hold. Once the ContentInfo is deserialized, wraps an
  EnvelopedData value and that value is parsed, \<open>EnvelopedData.deserialize\<close> raises a
  CMS error if the number of RecipientInfos is not 1 or if the variant of the only one
  is neither 1 nor 2, and returns a sessionless value for variant 1 and a session value
  for variant 2.
\<close>

lemma EnvelopedData_deserialize_recipients:
  assumes "deserializeContentInfo cms der = Inr ci" "contentType ci = ENVELOPED_DATA"
    and "parse_EnvelopedData cms (content ci) = Inr ed"
  shows "(length (recipientInfos ed) \<noteq> 1 \<longrightarrow>
            EnvelopedData_deserialize cms der
              = Inl (CMSError (''EnvelopedData must have exactly one RecipientInfo (got ''
                       @ nat_to_string 10 (length (recipientInfos ed)) @ '')'')))
       \<and> (recipientInfos ed = [ri] \<and> variant ri \<noteq> 1 \<and> variant ri \<noteq> 2 \<longrightarrow>
            EnvelopedData_deserialize cms der
              = Inl (CMSError (''Unsupported RecipientInfo (variant: ''
                       @ int_to_string (variant ri) @ '')'')))
       \<and> (recipientInfos ed = [ri] \<and> variant ri = 1 \<longrightarrow>
            EnvelopedData_deserialize cms der = Inr (SessionlessEnvelopedData ed))
       \<and> (recipientInfos ed = [ri] \<and> variant ri = 2 \<longrightarrow>
            EnvelopedData_deserialize cms der = Inr (SessionEnvelopedData ed))"
  using assms by (simp add: EnvelopedData_deserialize_def Let_def)

text \<open>
  \<open>getOriginatorKey\<close> raises a CMS error when no unprotected attribute has the OID of
  the originator key id.
\<close>

lemma getOriginatorKey_without_key_id:
  assumes "\<forall>a \<in> set (case unprotectedAttrs ed of None \<Rightarrow> [] | Some attrs \<Rightarrow> attrs).
             attribute_type a \<noteq> ORIGINATOR_EPHEMERAL_CERT_SERIAL_NUMBER"
  shows "getOriginatorKey cms ed
           = Inl (CMSError ''unprotectedAttrs must be present when using channel session'')
         \<or> getOriginatorKey cms ed
           = Inl (CMSError ''unprotectedAttrs does not contain originator key id'')"
proof -
  let ?attrs = "case unprotectedAttrs ed of None \<Rightarrow> [] | Some attrs \<Rightarrow> attrs"
  from assms have "filter (\<lambda>a. attribute_type a = ORIGINATOR_EPHEMERAL_CERT_SERIAL_NUMBER) ?attrs = []"
    by (simp add: filter_empty_conv)
  then show ?thesis
    by (simp add: getOriginatorKey_def extractOriginatorKeyId_def Let_def)
qed

text \<open>
  A key size that is given, not zero and not 128, 192 or 256 raises a CMS error in
  \<open>getAesKeySize\<close> and in both \<open>encrypt\<close> functions once the recipient is added.
\<close>

lemma getAesKeySize_cases:
  "getAesKeySize None = Inr 128"
  "n \<in> {128, 192, 256} \<Longrightarrow> getAesKeySize (Some n) = Inr n"
  "n \<noteq> 0 \<Longrightarrow> n \<notin> {128, 192, 256} \<Longrightarrow>
     getAesKeySize (Some n) = Inl (CMSError (''Invalid AES key size ('' @ int_to_string n @ '')''))"
  by (auto simp: getAesKeySize_def AES_KEY_SIZES_def)

lemma encrypt_invalid_key_size:
  assumes "n \<noteq> 0" "n \<notin> {128, 192, 256}"
  shows "addRecipientByCertificate cms certificate = Inr ri \<Longrightarrow>
           SessionlessEnvelopedData_encrypt cms plain certificate \<lparr>aesKeySize = Some n\<rparr>
             = Inl (CMSError (''Invalid AES key size ('' @ int_to_string n @ '')''))"
    and "addRecipientByKeyIdentifier cms (publicKey k) (keyId k) = Inr ri \<Longrightarrow>
           SessionEnvelopedData_encrypt cms random64 plain k \<lparr>aesKeySize = Some n\<rparr>
             = Inl (CMSError (''Invalid AES key size ('' @ int_to_string n @ '')''))"
  using assms
  by (simp_all add: SessionlessEnvelopedData_encrypt_def SessionEnvelopedData_encrypt_def
      getAesKeySize_cases Let_def)

text \<open>
  Claim C5 says that encryption with an AES key size outside 128, 192 and 256 raises a CMS
  error. The size 0 is outside that set, yet \<open>getAesKeySize\<close> accepts it and selects
  128, and encryption goes on with a 128-bit key.
\<close>

theorem aes_key_size_zero_accepted:
  "(0 :: int) \<notin> {128, 192, 256}
   \<and> getAesKeySize (Some 0) = Inr 128
   \<and> SessionlessEnvelopedData_encrypt stub_cms [1, 2, 3] example_certificate
         \<lparr>aesKeySize = Some 0\<rparr>
       = Inr (SessionlessEnvelopedData
                \<lparr>recipientInfos = [\<lparr>variant = 1, recipientInfo_value = []\<rparr>],
                 unprotectedAttrs = None, encryptedContent = [1, 2, 3]\<rparr>)"
  by (simp add: getAesKeySize_def AES_KEY_SIZES_def SessionlessEnvelopedData_encrypt_def
      stub_cms_def)

section \<open>Gateway channel: properties\<close>

lemma time_decomposition:
  "MakeDate (Day l) (MakeTime (HourFromTime l) (MinFromTime l) (SecFromTime l) (msFromTime l)) = l"
proof -
  define s where "s = l div 1000"
  define m where "m = s div 60"
  define h where "h = m div 60"
  have m: "l div 60000 = m" using zdiv_zmult2_eq [of 60 l 1000] by (simp add: m_def s_def)
  have h: "l div 3600000 = h" using zdiv_zmult2_eq [of 60 l 60000] m by (simp add: h_def)
  have d: "l div 86400000 = h div 24" using zdiv_zmult2_eq [of 24 l 3600000] h by simp
  have 1: "l = s * 1000 + l mod 1000" by (simp add: s_def)
  have 2: "s = m * 60 + s mod 60" by (simp add: m_def)
  have 3: "m = h * 60 + m mod 60" by (simp add: h_def)
  have 4: "h = (h div 24) * 24 + h mod 24" by simp
  have "(h div 24) * 86400000 + (h mod 24) * 3600000 + (m mod 60) * 60000 + (s mod 60) * 1000
          + l mod 1000 = l"
    using 1 2 3 4 by algebra
  then show ?thesis
    by (simp add: MakeDate_def MakeTime_def Day_def HourFromTime_def MinFromTime_def
        SecFromTime_def msFromTime_def msPerDay_def msPerHour_def msPerMinute_def
        msPerSecond_def m h d s_def [symmetric])
qed

lemma Date_setMilliseconds_zero:
  assumes "LocalTZA tz t True = c"
    and "LocalTZA tz (t - t mod 1000 + c) False = c"
    and "c mod 1000 = 0"
  shows "Date_setMilliseconds tz t 0 = t - t mod 1000"
proof -
  let ?l = "t + c"
  have "MakeDate (Day ?l) (MakeTime (HourFromTime ?l) (MinFromTime ?l) (SecFromTime ?l) 0)
          = ?l - msFromTime ?l"
    using time_decomposition [of ?l] by (simp add: MakeDate_def MakeTime_def)
  moreover have "msFromTime ?l = t mod 1000"
  proof -
    have "(t + c) mod 1000 = (t + c mod 1000) mod 1000"
      by (simp only: mod_add_right_eq)
    with assms(3) show ?thesis by (simp add: msFromTime_def msPerSecond_def)
  qed
  ultimately have
    "MakeDate (Day ?l) (MakeTime (HourFromTime ?l) (MinFromTime ?l) (SecFromTime ?l) 0)
       = t - t mod 1000 + c"
    by simp
  then show ?thesis
    using assms(1,2) by (simp add: Date_setMilliseconds_def Let_def UTC_def LocalTime_def)
qed

lemma Date_setHours_eq:
  assumes "LocalTZA tz t True = c"
    and "LocalTZA tz (t + c + (h - HourFromTime (t + c)) * 3600000) False = c"
  shows "Date_setHours tz t h = t + (h - Date_getHours tz t) * 3600000"
proof -
  let ?l = "t + c"
  have "MakeDate (Day ?l) (MakeTime h (MinFromTime ?l) (SecFromTime ?l) (msFromTime ?l))
          = ?l + (h - HourFromTime ?l) * msPerHour"
    using time_decomposition [of ?l] by (simp add: MakeDate_def MakeTime_def algebra_simps)
  then have
    "MakeDate (Day ?l) (MakeTime h (MinFromTime ?l) (SecFromTime ?l) (msFromTime ?l))
       = t + c + (h - HourFromTime (t + c)) * 3600000"
    by (simp add: msPerHour_def)
  then show ?thesis
    using assms by (simp add: Date_setHours_def Date_getHours_def Let_def UTC_def LocalTime_def)
qed

text \<open>
  When one offset, a whole number of seconds, is in force at the current time and three
  hours before it, the creation time is the current time, with its milliseconds removed,
  minus exactly 3 hours.
\<close>

lemma getCargoCreationTime_eq:
  assumes "c mod 1000 = 0"
    and "LocalTZA tz now True = c"
    and "LocalTZA tz (now - now mod 1000 + c) False = c"
    and "LocalTZA tz (now - now mod 1000) True = c"
    and "LocalTZA tz (now - now mod 1000 + c - 10800000) False = c"
  shows "getCargoCreationTime tz now = now - now mod 1000 - 3 * 3600000"
proof -
  let ?d = "now - now mod 1000"
  have d: "Date_setMilliseconds tz now 0 = ?d"
    using assms(2,3,1) by (rule Date_setMilliseconds_zero)
  have "?d + c + (HourFromTime (?d + c) - 3 - HourFromTime (?d + c)) * 3600000
          = ?d + c - 10800000"
    by simp
  with assms(5) have
    "LocalTZA tz (?d + c + (HourFromTime (?d + c) - 3 - HourFromTime (?d + c)) * 3600000) False
       = c"
    by simp
  from Date_setHours_eq [OF assms(4) this]
  have "Date_setHours tz ?d (HourFromTime (?d + c) - 3)
          = ?d + (HourFromTime (?d + c) - 3 - Date_getHours tz ?d) * 3600000" .
  moreover have "Date_getHours tz ?d = HourFromTime (?d + c)"
    using assms(4) by (simp add: Date_getHours_def LocalTime_def)
  ultimately show ?thesis
    by (simp add: getCargoCreationTime_def Let_def d CLOCK_DRIFT_TOLERANCE_HOURS_def)
qed

lemma getCargoCreationTime_fixed_offset:
  assumes "localOffset mod 1000 = 0"
  shows "getCargoCreationTime (fixed_offset localOffset) now = now - now mod 1000 - 3 * 3600000"
  using assms by (intro getCargoCreationTime_eq [where c = localOffset])
    (simp_all add: fixed_offset_def)

lemma creation_time_whole_seconds: "(t - t mod 1000 - 10800000) mod 1000 = (0 :: int)"
proof -
  have "t - t mod 1000 = 1000 * (t div 1000)" by (simp add: minus_mod_eq_mult_div)
  then have "t - t mod 1000 - 10800000 = 1000 * (t div 1000 - 10800)" by simp
  then show ?thesis by simp
qed

lemma buildCargo_creationDate:
  "creationDate (buildCargo tz channel batch payload) = getCargoCreationTime tz (batch_now batch)"
  by (simp add: buildCargo_def Let_def new_Cargo_def new_RAMFMessage_def)

lemma buildCargo_ttl:
  "ttl (buildCargo tz channel batch payload)
     = Finite (min ((batch_expiryDate batch - creationDate (buildCargo tz channel batch payload))
                    div 1000)
                   15552000)"
  by (simp add: buildCargo_def Let_def new_Cargo_def new_RAMFMessage_def
      getSecondsBetweenDates_def RAMF_MAX_TTL_def)

lemma generateCargoes_yields:
  assumes "generateCargoes ext tz channel batches = (yielded, r)"
  shows "length yielded \<le> length batches
         \<and> (\<forall>k < length yielded.
               \<exists>payload. wrapMessagePayload channel (messageSerialized (batches ! k)) = Inr payload
                 \<and> serialize ext (buildCargo tz channel (batches ! k) payload)
                       CARGO_TYPE_OCTET CARGO_VERSION_OCTET (nodePrivateKey channel)
                       (signatureOptions channel) = Inr (yielded ! k))"
  using assms
proof (induction batches arbitrary: yielded r)
  case Nil
  then show ?case by simp
next
  case (Cons batch rest)
  show ?case
  proof (cases "encryptPayload channel (messageSerialized batch)")
    case (Inl e)
    with Cons.prems show ?thesis by simp
  next
    case (Inr payload)
    note enc = this
    show ?thesis
    proof (cases "serialize ext (buildCargo tz channel batch payload)
                    CARGO_TYPE_OCTET CARGO_VERSION_OCTET (nodePrivateKey channel)
                    (signatureOptions channel)")
      case (Inl e)
      with enc Cons.prems show ?thesis by simp
    next
      case (Inr cargoSerialized)
      obtain ys r' where rec: "generateCargoes ext tz channel rest = (ys, r')"
        by (cases "generateCargoes ext tz channel rest")
      with enc Inr Cons.prems have y: "yielded = cargoSerialized # ys" by simp
      from Cons.IH [OF rec] have ih: "length ys \<le> length rest"
        "\<forall>k < length ys.
               \<exists>payload. wrapMessagePayload channel (messageSerialized (rest ! k)) = Inr payload
                 \<and> serialize ext (buildCargo tz channel (rest ! k) payload)
                       CARGO_TYPE_OCTET CARGO_VERSION_OCTET (nodePrivateKey channel)
                       (signatureOptions channel) = Inr (ys ! k)"
        by simp_all
      have "\<exists>payload. wrapMessagePayload channel (messageSerialized ((batch # rest) ! k)) = Inr payload
                 \<and> serialize ext (buildCargo tz channel ((batch # rest) ! k) payload)
                       CARGO_TYPE_OCTET CARGO_VERSION_OCTET (nodePrivateKey channel)
                       (signatureOptions channel) = Inr (yielded ! k)"
        if "k < length yielded" for k
      proof (cases k)
        case 0
        with enc Inr y show ?thesis by (simp add: encryptPayload_def)
      next
        case (Suc j)
        with that y have "j < length ys" by simp
        with ih(2) Suc y show ?thesis by simp
      qed
      with ih(1) y show ?thesis by simp
    qed
  qed
qed

text \<open>
  In a time zone with one offset throughout, a whole number of seconds, every cargo that
  \<open>generateCargoes\<close> constructs has as creation date the current time, with its
  milliseconds removed, minus exactly 3 hours, and in every time zone its TTL is the
  minimum of 15552000 and the whole number of seconds (rounded down) from its creation
  date to the expiry date of the batch. Each buffer that \<open>generateCargoes\<close> yields is the
  serialization, as cargo, of the cargo constructed for the batch at the same position.
\<close>

lemma cargo_with_fixed_offset:
  assumes "localOffset mod 1000 = 0"
  shows "creationDate (buildCargo (fixed_offset localOffset) channel batch payload)
           = batch_now batch - batch_now batch mod 1000 - 3 * 3600000
       \<and> creationDate (buildCargo (fixed_offset localOffset) channel batch payload) mod 1000 = 0
       \<and> ttl (buildCargo tz channel batch payload)
           = Finite (min ((batch_expiryDate batch
                            - creationDate (buildCargo tz channel batch payload))
                          div 1000)
                         15552000)
       \<and> (generateCargoes ext tz channel batches = (yielded, r) \<longrightarrow>
            length yielded \<le> length batches
            \<and> (\<forall>k < length yielded.
                  \<exists>p. wrapMessagePayload channel (messageSerialized (batches ! k)) = Inr p
                    \<and> serialize ext (buildCargo tz channel (batches ! k) p)
                          0x43 0 (nodePrivateKey channel) (signatureOptions channel)
                        = Inr (yielded ! k)))"
proof (intro conjI impI)
  show c: "creationDate (buildCargo (fixed_offset localOffset) channel batch payload)
           = batch_now batch - batch_now batch mod 1000 - 3 * 3600000"
    by (simp add: buildCargo_creationDate getCargoCreationTime_fixed_offset [OF assms])
  show "creationDate (buildCargo (fixed_offset localOffset) channel batch payload) mod 1000 = 0"
    unfolding c using creation_time_whole_seconds [of "batch_now batch"] by simp
  show "ttl (buildCargo tz channel batch payload)
           = Finite (min ((batch_expiryDate batch
                            - creationDate (buildCargo tz channel batch payload))
                          div 1000)
                         15552000)"
    by (rule buildCargo_ttl)
next
  assume "generateCargoes ext tz channel batches = (yielded, r)"
  from generateCargoes_yields [OF this]
  show "length yielded \<le> length batches"
    and "\<forall>k < length yielded.
                  \<exists>p. wrapMessagePayload channel (messageSerialized (batches ! k)) = Inr p
                    \<and> serialize ext (buildCargo tz channel (batches ! k) p)
                          0x43 0 (nodePrivateKey channel) (signatureOptions channel)
                        = Inr (yielded ! k)"
    by (simp_all add: CARGO_TYPE_OCTET_def CARGO_VERSION_OCTET_def)
qed

text \<open>
  The example of the specification, in UTC and in New York: with the current time
  2025-06-15T12:00:00Z the creation date is 2025-06-15T09:00:00Z.
\<close>

lemma cargo_creation_date_examples:
  "getCargoCreationTime (fixed_offset 0) 1749988800000 = 1749978000000"
  "getCargoCreationTime (fixed_offset 7200000) 1749988800123 = 1749978000000"
  "getCargoCreationTime america_new_york_2025 1749988800000 = 1749978000000"
  "ttl (buildCargo (fixed_offset 7200000) example_channel example_batch [0x30, 0x00])
     = Finite 3600"
  "ttl (buildCargo (fixed_offset 0) example_channel
          (example_batch\<lparr>batch_expiryDate := 1781524800000\<rparr>) [])
     = Finite 15552000"
  by (simp_all add: getCargoCreationTime_fixed_offset buildCargo_ttl buildCargo_creationDate
      example_batch_def
      getCargoCreationTime_eq [where c = "- 14400000"] america_new_york_2025_def)

text \<open>
  Claim C6 says that every cargo has as creation date the current time minus exactly 3
  hours. The code subtracts 3 from the hour of the local time instead
  (\<open>setHours(getHours() - 3)\<close>), which is another instant when the offset of local time
  changes within those hours. In New York, at 2025-03-09T07:30:00.500Z (03:30 local time,
  half an hour after the clocks went forward), the creation date is 2025-03-09T05:30:00Z,
  2 hours before the current time and not 3 (2025-03-09T04:30:00Z), and the TTL of the
  cargo, for a batch that expires a day after the current time, is 93600 seconds instead
  of 97200; the cargo is serialized and yielded with them. At 2025-11-02T07:30:00.500Z
  (02:30 local time, an hour and a half after the clocks went back) the creation date is
  2025-11-02T03:30:00Z, 4 hours before the current time.
\<close>

theorem cargo_creation_date_across_dst_change:
  "getCargoCreationTime america_new_york_2025 1741505400500 = 1741498200000
   \<and> 1741505400500 - 1741505400500 mod 1000 - 3 * 3600000 = (1741494600000 :: int)
   \<and> creationDate (buildCargo america_new_york_2025 example_channel
        \<lparr>batch_now = 1741505400500, batch_uuid = ''msg-1'', messageSerialized = [0x30, 0x00],
          batch_expiryDate = 1741591800500\<rparr> [0x30, 0x00])
       = 1741498200000
   \<and> ttl (buildCargo america_new_york_2025 example_channel
        \<lparr>batch_now = 1741505400500, batch_uuid = ''msg-1'', messageSerialized = [0x30, 0x00],
          batch_expiryDate = 1741591800500\<rparr> [0x30, 0x00])
       = Finite 93600
   \<and> (1741591800500 - 1741494600000) div 1000 = (97200 :: int)
   \<and> generateCargoes stub_externals america_new_york_2025 example_channel
        [\<lparr>batch_now = 1741505400500, batch_uuid = ''msg-1'', messageSerialized = [0x30, 0x00],
           batch_expiryDate = 1741591800500\<rparr>]
       = ([generateFormatSignature 0x43 0 @ [0x30, 0x00]], None)
   \<and> getCargoCreationTime america_new_york_2025 1762068600500 = 1762054200000
   \<and> 1762068600500 - 1762068600500 mod 1000 - 3 * 3600000 = (1762057800000 :: int)"
proof -
  let ?b = "\<lparr>batch_now = 1741505400500, batch_uuid = ''msg-1'',
              messageSerialized = [0x30, 0x00], batch_expiryDate = 1741591800500\<rparr>"
  let ?out = "generateFormatSignature 0x43 0 @ [0x30, 0x00]"
  have 1: "getCargoCreationTime america_new_york_2025 1741505400500 = 1741498200000"
    by (simp add: getCargoCreationTime_def Date_setMilliseconds_def Date_setHours_def
        Date_getHours_def LocalTime_def UTC_def MakeDate_def MakeTime_def Day_def
        HourFromTime_def MinFromTime_def SecFromTime_def msFromTime_def msPerDay_def
        msPerHour_def msPerMinute_def msPerSecond_def CLOCK_DRIFT_TOLERANCE_HOURS_def
        america_new_york_2025_def Let_def)
  have 2: "getCargoCreationTime america_new_york_2025 1762068600500 = 1762054200000"
    by (simp add: getCargoCreationTime_def Date_setMilliseconds_def Date_setHours_def
        Date_getHours_def LocalTime_def UTC_def MakeDate_def MakeTime_def Day_def
        HourFromTime_def MinFromTime_def SecFromTime_def msFromTime_def msPerDay_def
        msPerHour_def msPerMinute_def msPerSecond_def CLOCK_DRIFT_TOLERANCE_HOURS_def
        america_new_york_2025_def Let_def)
  have c: "creationDate (buildCargo america_new_york_2025 example_channel ?b [0x30, 0x00])
             = 1741498200000"
    by (simp add: buildCargo_creationDate 1)
  have t: "ttl (buildCargo america_new_york_2025 example_channel ?b [0x30, 0x00])
             = Finite 93600"
    unfolding buildCargo_ttl c by simp
  have f: "recipientAddress (buildCargo america_new_york_2025 example_channel ?b [0x30, 0x00])
             = ''0abc''"
    "id' (buildCargo america_new_york_2025 example_channel ?b [0x30, 0x00]) = ''msg-1''"
    "payloadSerialized (buildCargo america_new_york_2025 example_channel ?b [0x30, 0x00])
       = [0x30, 0x00]"
    by (simp_all add: buildCargo_def new_Cargo_def new_RAMFMessage_def example_channel_def
        Let_def)
  have s: "serialize stub_externals
             (buildCargo america_new_york_2025 example_channel ?b [0x30, 0x00])
             0x43 0 [1] None = Inr ?out"
    by (rule serialize_ok)
      (simp_all add: f t example_fields_valid validateTtl_ok stub_externals_def)
  have g: "generateCargoes stub_externals america_new_york_2025 example_channel [?b]
             = ([?out], None)"
    using s
    by (simp add: encryptPayload_def example_channel_def
        CARGO_TYPE_OCTET_def CARGO_VERSION_OCTET_def)
  have a: "1741505400500 - 1741505400500 mod 1000 - 3 * 3600000 = (1741494600000 :: int)"
    "(1741591800500 - 1741494600000) div 1000 = (97200 :: int)"
    "1762068600500 - 1762068600500 mod 1000 - 3 * 3600000 = (1762057800000 :: int)"
    by simp_all
  from 1 2 c t g a show ?thesis by blast
qed

end
